theory Spec2Isabelle
  imports Main "HOL-Library.Multiset"
begin

section \<open>The catalog store of \<open>scripts/project_ops.py\<close>\<close>

text \<open>
  The script keeps three CSV files: \<open>projects.csv\<close>, \<open>project_tracks.csv\<close> and
  \<open>tracks.csv\<close>. Every operation reads a file completely with \<open>csv.DictReader\<close>,
  works on the list of rows, and writes the list back with \<open>csv.DictWriter\<close>. The model
  takes the CSV layer as given: a file is the list of its rows in file order, as
  \<open>csv.DictReader\<close> returns them, and a row is a record with one string field per
  column. The script writes with \<open>newline=''\<close> and reads in text mode with universal
  newlines, so a field that is written with a carriage return is read back with a line
  feed (\<open>universal_newlines\<close> below); a field the script has read holds no carriage
  return, and writing it and reading it again gives the same field. Fields are ASCII
  text. The console output of the operations is not modelled.
\<close>

subsection \<open>Rows and the store\<close>

text \<open>Columns of \<open>projects.csv\<close>; the column \<open>keywords\<close> is \<open>keywords_col\<close> here.\<close>

record project =
  project_id :: string
  name :: string
  description :: string
  for_field :: string
  keywords_col :: string
  created_on :: string
  modified_on :: string
  status :: string
  deadline :: string
  collaborators :: string

text \<open>
  Columns of \<open>project_tracks.csv\<close>. The columns \<open>project_id\<close> and \<open>track_id\<close> carry
  the prefix \<open>pt_\<close> here, since a field name belongs to one record type only, and
  the column \<open>notes\<close> is \<open>notes_col\<close>.
\<close>

record project_track =
  pt_project_id :: string
  pt_track_id :: string
  added_date :: string
  position :: string
  notes_col :: string

text \<open>Columns of \<open>tracks.csv\<close>; the column \<open>id\<close> is \<open>track_id\<close> here.\<close>

record track =
  track_id :: string
  track_title :: string
  track_description :: string
  bpm :: string
  duration :: string
  album_title :: string
  library_name :: string
  composer :: string
  genre :: string
  additional_genres :: string
  apm_release_date :: string
  has_stems :: string

text \<open>The three files.\<close>

record store =
  projects :: "project list"
  project_tracks :: "project_track list"
  tracks :: "track list"

text \<open>
  The ways an operation stops early. The first four are the messages printed before
  \<open>sys.exit(1)\<close>:
  \<^item> \<open>NotFound_project\<close>: ``Project ... does not exist'';
  \<^item> \<open>NotFound_track\<close>: ``Track ... does not exist in catalog'';
  \<^item> \<open>Conflict_duplicate_membership\<close>: ``Track ... is already in project ...'';
  \<^item> \<open>NotFound_membership\<close>: ``Track ... not found in project ...''.

  \<open>ValueError\<close> is the exception of \<open>int()\<close> on a field that is not a number.
\<close>

datatype error =
  NotFound_project
  | NotFound_track
  | Conflict_duplicate_membership
  | NotFound_membership
  | ValueError

subsection \<open>Python's conversions between integers and decimal text\<close>

definition is_digit :: "char \<Rightarrow> bool" where
  "is_digit c = (48 \<le> (of_char c :: nat) \<and> (of_char c :: nat) \<le> 57)"

definition digit_value :: "char \<Rightarrow> nat" where
  "digit_value c = of_char c - 48"

definition digit_char :: "nat \<Rightarrow> char" where
  "digit_char d = char_of (48 + d)"

text \<open>
  The characters \<open>int()\<close> strips from both ends of an ASCII string: tab, line feed,
  vertical tab, form feed, carriage return and space.
\<close>

definition py_isspace :: "char \<Rightarrow> bool" where
  "py_isspace c = (let k = (of_char c :: nat) in (9 \<le> k \<and> k \<le> 13) \<or> k = 32)"

definition py_strip :: "string \<Rightarrow> string" where
  "py_strip s = rev (dropWhile py_isspace (rev (dropWhile py_isspace s)))"

text \<open>
  After the first digit: digits, each optionally preceded by one underscore.
  The accumulator is the value read so far.
\<close>

fun digits_rest :: "nat \<Rightarrow> string \<Rightarrow> nat option" where
  "digits_rest acc [] = Some acc"
| "digits_rest acc (c # cs) =
     (if is_digit c then digits_rest (10 * acc + digit_value c) cs
      else if c = CHR ''_'' then
        (case cs of
           [] \<Rightarrow> None
         | d # ds \<Rightarrow> if is_digit d then digits_rest (10 * acc + digit_value d) ds else None)
      else None)"

text \<open>
  The interpreter's limit on decimal conversions, \<open>sys.get_int_max_str_digits()\<close>, at
  its default: \<open>int()\<close> raises \<open>ValueError\<close> on more digits than this (leading zeros
  counted, underscores not), and so do \<open>str()\<close> and the format of an integer with
  more digits.
\<close>

definition int_max_str_digits :: nat where
  "int_max_str_digits = 4300"

definition unsigned_int :: "string \<Rightarrow> nat option" where
  "unsigned_int s =
     (case s of
        [] \<Rightarrow> None
      | c # cs \<Rightarrow>
          if is_digit c \<and> length (filter is_digit s) \<le> int_max_str_digits
          then digits_rest (digit_value c) cs
          else None)"

text \<open>\<open>int(s)\<close> for a string \<open>s\<close>, base 10; \<open>None\<close> is \<open>ValueError\<close>.\<close>

definition py_int :: "string \<Rightarrow> int option" where
  "py_int s =
     (case py_strip s of
        [] \<Rightarrow> None
      | c # cs \<Rightarrow>
          if c = CHR ''-'' then map_option (\<lambda>n. - int n) (unsigned_int cs)
          else if c = CHR ''+'' then map_option int (unsigned_int cs)
          else map_option int (unsigned_int (c # cs)))"

text \<open>The decimal digits of a natural number, without leading zeros.\<close>

function decimal :: "nat \<Rightarrow> string" where
  "decimal n = (if n < 10 then [digit_char n] else decimal (n div 10) @ [digit_char (n mod 10)])"
  by pat_completeness auto
termination
  by (relation "measure id") auto

declare decimal.simps [simp del]

text \<open>An integer has no more digits than the limit allows.\<close>

definition str_digits_ok :: "int \<Rightarrow> bool" where
  "str_digits_ok n = (length (decimal (nat \<bar>n\<bar>)) \<le> int_max_str_digits)"

text \<open>
  \<open>str(n)\<close>, which the CSV writer applies to an integer field; \<open>None\<close> is
  \<open>ValueError\<close>.
\<close>

definition py_str_text :: "int \<Rightarrow> string" where
  "py_str_text n = (if n < 0 then CHR ''-'' # decimal (nat (- n)) else decimal (nat n))"

definition py_str :: "int \<Rightarrow> string option" where
  "py_str n = (if str_digits_ok n then Some (py_str_text n) else None)"

text \<open>
  The format \<open>{n:03d}\<close>: the sign, then zeros up to a total width of three, then the
  digits. A number of more than three characters is not cut. \<open>None\<close> is
  \<open>ValueError\<close>.
\<close>

definition format_03d_text :: "int \<Rightarrow> string" where
  "format_03d_text n =
     (let sign = (if n < 0 then ''-'' else '''');
          digits = decimal (nat \<bar>n\<bar>)
      in sign @ replicate (3 - (length sign + length digits)) (CHR ''0'') @ digits)"

definition format_03d :: "int \<Rightarrow> string option" where
  "format_03d n = (if str_digits_ok n then Some (format_03d_text n) else None)"

text \<open>
  A field written and read back: a carriage return with a line feed after it, and a
  carriage return alone, become one line feed.
\<close>

fun universal_newlines :: "string \<Rightarrow> string" where
  "universal_newlines [] = []"
| "universal_newlines (c # cs) =
     (if c = CHR 0x0D then
        (case cs of
           [] \<Rightarrow> [CHR 0x0A]
         | d # ds \<Rightarrow>
             if d = CHR 0x0A then CHR 0x0A # universal_newlines ds
             else CHR 0x0A # universal_newlines cs)
      else c # universal_newlines cs)"

text \<open>\<open>s.replace('P', '')\<close>: every occurrence of the letter is dropped.\<close>

definition replace_P :: "string \<Rightarrow> string" where
  "replace_P s = filter (\<lambda>c. c \<noteq> CHR ''P'') s"

subsection \<open>Readers\<close>

text \<open>
  The loop of \<open>get_next_project_id\<close> over the rows of \<open>projects.csv\<close>, with the
  running maximum.
\<close>

fun max_project_id :: "int \<Rightarrow> project list \<Rightarrow> error + int" where
  "max_project_id max_id [] = Inr max_id"
| "max_project_id max_id (row # rows) =
     (case py_int (replace_P (project_id row)) of
        None \<Rightarrow> Inl ValueError
      | Some pid \<Rightarrow> max_project_id (max max_id pid) rows)"

definition get_next_project_id :: "project list \<Rightarrow> error + string" where
  "get_next_project_id rows =
     (case max_project_id 0 rows of
        Inl e \<Rightarrow> Inl e
      | Inr max_id \<Rightarrow>
          (case format_03d (max_id + 1) of
             None \<Rightarrow> Inl ValueError
           | Some digits \<Rightarrow> Inr (CHR ''P'' # digits)))"

fun validate_track_exists :: "track list \<Rightarrow> string \<Rightarrow> bool" where
  "validate_track_exists [] tid = False"
| "validate_track_exists (row # rows) tid =
     (if track_id row = tid then True else validate_track_exists rows tid)"

fun validate_project_exists :: "project list \<Rightarrow> string \<Rightarrow> bool" where
  "validate_project_exists [] pid = False"
| "validate_project_exists (row # rows) pid =
     (if project_id row = pid then True else validate_project_exists rows pid)"

text \<open>The loop of \<open>get_next_position\<close> over the rows of \<open>project_tracks.csv\<close>.\<close>

fun max_position :: "int \<Rightarrow> project_track list \<Rightarrow> string \<Rightarrow> error + int" where
  "max_position max_pos [] pid = Inr max_pos"
| "max_position max_pos (row # rows) pid =
     (if pt_project_id row = pid then
        (case py_int (position row) of
           None \<Rightarrow> Inl ValueError
         | Some p \<Rightarrow> max_position (max max_pos p) rows pid)
      else max_position max_pos rows pid)"

definition get_next_position :: "project_track list \<Rightarrow> string \<Rightarrow> error + int" where
  "get_next_position rows pid =
     (case max_position 0 rows pid of
        Inl e \<Rightarrow> Inl e
      | Inr max_pos \<Rightarrow> Inr (max_pos + 1))"

fun track_in_project :: "project_track list \<Rightarrow> string \<Rightarrow> string \<Rightarrow> bool" where
  "track_in_project [] pid tid = False"
| "track_in_project (row # rows) pid tid =
     (if pt_project_id row = pid \<and> pt_track_id row = tid then True
      else track_in_project rows pid tid)"

fun get_track_title :: "track list \<Rightarrow> string \<Rightarrow> string" where
  "get_track_title [] tid = ''Unknown''"
| "get_track_title (row # rows) tid =
     (if track_id row = tid then track_title row else get_track_title rows tid)"

fun get_project_name :: "project list \<Rightarrow> string \<Rightarrow> string" where
  "get_project_name [] pid = ''Unknown''"
| "get_project_name (row # rows) pid =
     (if project_id row = pid then name row else get_project_name rows pid)"

subsection \<open>Writers\<close>

text \<open>
  An operation takes the store and gives its outcome with the store it leaves behind:
  the rows the script finds in the files when it reads them next. The date is the text
  \<open>datetime.now().strftime('%Y-%m-%d')\<close> returns, digits and hyphens; it is an
  argument, one for each place where the clock is read.
\<close>

text \<open>
  The loop of \<open>update_project_modified\<close>: the first row of the project gets the date,
  and the \<open>break\<close> leaves the rows after it alone.
\<close>

fun update_project_modified :: "string \<Rightarrow> project list \<Rightarrow> string \<Rightarrow> project list" where
  "update_project_modified today [] pid = []"
| "update_project_modified today (row # rows) pid =
     (if project_id row = pid then row\<lparr>modified_on := today\<rparr> # rows
      else row # update_project_modified today rows pid)"

definition create_project ::
  "string \<Rightarrow> string \<Rightarrow> string \<Rightarrow> string \<Rightarrow> string \<Rightarrow> string \<Rightarrow> string \<Rightarrow> store
     \<Rightarrow> (error + string) \<times> store" where
  "create_project today name' description' for_field' keywords' deadline' collaborators' s =
     (case get_next_project_id (projects s) of
        Inl e \<Rightarrow> (Inl e, s)
      | Inr pid \<Rightarrow>
          (let new_row = \<lparr>project_id = pid, name = universal_newlines name',
                           description = universal_newlines description',
                           for_field = universal_newlines for_field',
                           keywords_col = universal_newlines keywords',
                           created_on = today, modified_on = today,
                           status = ''Active'',
                           deadline = universal_newlines deadline',
                           collaborators = universal_newlines collaborators'\<rparr>
           in (Inr pid, s\<lparr>projects := projects s @ [new_row]\<rparr>)))"

text \<open>
  \<open>add_track\<close> reads the clock for the new row (\<open>today\<close>) and again in
  \<open>update_project_modified\<close> (\<open>today'\<close>). The position goes into the new row as
  an integer, and the CSV writer turns it into text when it comes to that row, the rows
  read being written again by then: where \<open>str()\<close> raises, the file has the rows it had
  and the projects table is not touched. The project and the track of the new row have
  passed the existence checks, so they are fields read from the files.
\<close>

definition add_track ::
  "string \<Rightarrow> string \<Rightarrow> string \<Rightarrow> string \<Rightarrow> string \<Rightarrow> store \<Rightarrow> (error + unit) \<times> store" where
  "add_track today today' pid tid notes' s =
     (if \<not> validate_project_exists (projects s) pid then (Inl NotFound_project, s)
      else if \<not> validate_track_exists (tracks s) tid then (Inl NotFound_track, s)
      else if track_in_project (project_tracks s) pid tid
        then (Inl Conflict_duplicate_membership, s)
      else
        (case get_next_position (project_tracks s) pid of
           Inl e \<Rightarrow> (Inl e, s)
         | Inr pos \<Rightarrow>
             (case py_str pos of
                None \<Rightarrow> (Inl ValueError, s)
              | Some text \<Rightarrow>
                  (let new_row = \<lparr>pt_project_id = pid, pt_track_id = tid,
                                   added_date = today, position = text,
                                   notes_col = universal_newlines notes'\<rparr>
                   in (Inr (),
                       s\<lparr>project_tracks := project_tracks s @ [new_row],
                         projects := update_project_modified today' (projects s) pid\<rparr>)))))"

definition remove_track :: "string \<Rightarrow> string \<Rightarrow> string \<Rightarrow> store \<Rightarrow> (error + unit) \<times> store" where
  "remove_track today pid tid s =
     (let rows = project_tracks s;
          original_len = length rows;
          rows' = filter (\<lambda>r. \<not> (pt_project_id r = pid \<and> pt_track_id r = tid)) rows
      in if length rows' = original_len then (Inl NotFound_membership, s)
         else (Inr (),
               s\<lparr>project_tracks := rows',
                 projects := update_project_modified today (projects s) pid\<rparr>))"

subsection \<open>Listing\<close>

text \<open>An element of the list \<open>tracks\<close> that \<open>list_tracks\<close> builds, sorts and prints.\<close>

record listed_track =
  lt_position :: int
  lt_track_id :: string
  lt_title :: string
  lt_added_date :: string
  lt_notes :: string

fun collect_tracks :: "track list \<Rightarrow> project_track list \<Rightarrow> string \<Rightarrow> error + listed_track list" where
  "collect_tracks cat [] pid = Inr []"
| "collect_tracks cat (row # rows) pid =
     (if pt_project_id row = pid then
        (case py_int (position row) of
           None \<Rightarrow> Inl ValueError
         | Some p \<Rightarrow>
             (case collect_tracks cat rows pid of
                Inl e \<Rightarrow> Inl e
              | Inr ts \<Rightarrow>
                  Inr (\<lparr>lt_position = p, lt_track_id = pt_track_id row,
                        lt_title = get_track_title cat (pt_track_id row),
                        lt_added_date = added_date row, lt_notes = notes_col row\<rparr> # ts)))
      else collect_tracks cat rows pid)"

text \<open>\<open>list.sort\<close> with a key is stable, as \<open>sort_key\<close> is.\<close>

definition list_tracks :: "store \<Rightarrow> string \<Rightarrow> error + listed_track list" where
  "list_tracks s pid =
     (if \<not> validate_project_exists (projects s) pid then Inl NotFound_project
      else
        (case collect_tracks (tracks s) (project_tracks s) pid of
           Inl e \<Rightarrow> Inl e
         | Inr ts \<Rightarrow> Inr (sort_key lt_position ts)))"

section \<open>Notions used in the statements\<close>

text \<open>
  The files hold text, and the script can be run on any text. Where a statement is
  about stores of the data model, it says so by one of the predicates of this section:
  identifiers with a number (\<open>readable_projects\<close>, \<open>valid_projects\<close>), positions
  that are numbers (\<open>numeric_positions\<close>), a unique composite key and unique positions
  (\<open>membership_invariant\<close>), memberships of known projects (\<open>referential\<close>).
  The writers keep the last two (\<open>run_invariant\<close>, \<open>run_referential\<close>).
\<close>

subsection \<open>Numbers of project identifiers\<close>

text \<open>The value of a string of digits read from the left, starting from \<open>acc\<close>.\<close>

definition digits_value :: "nat \<Rightarrow> string \<Rightarrow> nat" where
  "digits_value acc cs = foldl (\<lambda>a c. 10 * a + digit_value c) acc cs"

text \<open>
  The number \<open>get_next_project_id\<close> reads from an identifier:
  \<open>int(row['project_id'].replace('P', ''))\<close>.
\<close>

definition id_number :: "string \<Rightarrow> int option" where
  "id_number pid = py_int (replace_P pid)"

definition project_numbers :: "project list \<Rightarrow> int list" where
  "project_numbers rows = List.map_filter (\<lambda>row. id_number (project_id row)) rows"

text \<open>
  A readable projects table: every identifier has a number, and none is negative. The
  identifiers \<open>P001\<close>, \<open>P002\<close>, ... of the data model are of this kind.
\<close>

definition readable_projects :: "project list \<Rightarrow> bool" where
  "readable_projects rows =
     list_all (\<lambda>row. case id_number (project_id row) of None \<Rightarrow> False | Some n \<Rightarrow> 0 \<le> n) rows"

text \<open>
  A valid projects table: readable, and no number so long that the next one is beyond
  the interpreter's limit.
\<close>

definition valid_projects :: "project list \<Rightarrow> bool" where
  "valid_projects rows =
     list_all
       (\<lambda>row. case id_number (project_id row) of
                 None \<Rightarrow> False
               | Some n \<Rightarrow> 0 \<le> n \<and> str_digits_ok (n + 1))
       rows"

text \<open>The maximum numeric suffix among the identifiers of a table; 0 for the empty table.\<close>

definition max_suffix :: "project list \<Rightarrow> int" where
  "max_suffix rows = (if rows = [] then 0 else Max (set (project_numbers rows)))"

subsection \<open>Sequences of \<open>create_project\<close> calls\<close>

text \<open>The arguments of one call, with the date the clock shows during it.\<close>

record request =
  rq_today :: string
  rq_name :: string
  rq_description :: string
  rq_for_field :: string
  rq_keywords :: string
  rq_deadline :: string
  rq_collaborators :: string

definition create_project_request :: "request \<Rightarrow> store \<Rightarrow> (error + string) \<times> store" where
  "create_project_request r s =
     create_project (rq_today r) (rq_name r) (rq_description r) (rq_for_field r)
       (rq_keywords r) (rq_deadline r) (rq_collaborators r) s"

text \<open>
  The calls in turn, each on the store the one before left. The trace has, for each
  call, the projects table it found and its outcome.
\<close>

fun create_projects ::
  "request list \<Rightarrow> store \<Rightarrow> (project list \<times> (error + string)) list \<times> store" where
  "create_projects [] s = ([], s)"
| "create_projects (r # rs) s =
     (case create_project_request r s of
        (out, s') \<Rightarrow>
          (case create_projects rs s' of
             (trace, s'') \<Rightarrow> ((projects s, out) # trace, s'')))"

definition assigned_ids :: "(project list \<times> (error + string)) list \<Rightarrow> string list" where
  "assigned_ids trace =
     List.map_filter (\<lambda>(before, out). case out of Inl e \<Rightarrow> None | Inr pid \<Rightarrow> Some pid) trace"

definition assigned_numbers :: "(project list \<times> (error + string)) list \<Rightarrow> int list" where
  "assigned_numbers trace = List.map_filter id_number (assigned_ids trace)"

subsection \<open>Memberships\<close>

text \<open>The composite key of a row of \<open>project_tracks.csv\<close>.\<close>

definition membership_key :: "project_track \<Rightarrow> string \<times> string" where
  "membership_key r = (pt_project_id r, pt_track_id r)"

text \<open>The rows of one project, in file order, and the numbers in their position column.\<close>

definition project_rows :: "project_track list \<Rightarrow> string \<Rightarrow> project_track list" where
  "project_rows rows pid = filter (\<lambda>r. pt_project_id r = pid) rows"

definition position_numbers :: "project_track list \<Rightarrow> string \<Rightarrow> int list" where
  "position_numbers rows pid = List.map_filter (\<lambda>r. py_int (position r)) (project_rows rows pid)"

text \<open>The positions of the rows of a project are numbers that \<open>int()\<close> reads.\<close>

definition numeric_positions :: "project_track list \<Rightarrow> string \<Rightarrow> bool" where
  "numeric_positions rows pid =
     list_all (\<lambda>r. py_int (position r) \<noteq> None) (project_rows rows pid)"

text \<open>The maximum of 0 and the positions of a project.\<close>

definition previous_max :: "project_track list \<Rightarrow> string \<Rightarrow> int" where
  "previous_max rows pid = Max (set (0 # position_numbers rows pid))"

text \<open>The number of rows with a composite key.\<close>

definition key_count :: "project_track list \<Rightarrow> string \<Rightarrow> string \<Rightarrow> nat" where
  "key_count rows pid tid = length (filter (\<lambda>r. membership_key r = (pid, tid)) rows)"

text \<open>Every membership row is of a project of the projects table.\<close>

definition referential :: "store \<Rightarrow> bool" where
  "referential s =
     list_all (\<lambda>r. pt_project_id r \<in> project_id ` set (projects s)) (project_tracks s)"

subsection \<open>Listings\<close>

text \<open>
  The title of a track as the catalog has it: the title of the first row with the
  identifier, and \<open>Unknown\<close> when there is none.
\<close>

definition title_of :: "track list \<Rightarrow> string \<Rightarrow> string" where
  "title_of cat tid =
     (case find (\<lambda>t. track_id t = tid) cat of None \<Rightarrow> ''Unknown'' | Some t \<Rightarrow> track_title t)"

text \<open>The entry of a membership row in a listing, for a row whose position is a number.\<close>

definition listed :: "track list \<Rightarrow> project_track \<Rightarrow> listed_track option" where
  "listed cat r =
     map_option
       (\<lambda>p. \<lparr>lt_position = p, lt_track_id = pt_track_id r,
              lt_title = title_of cat (pt_track_id r),
              lt_added_date = added_date r, lt_notes = notes_col r\<rparr>)
       (py_int (position r))"

text \<open>The entries of the rows of a project, in file order.\<close>

definition entries :: "store \<Rightarrow> string \<Rightarrow> listed_track list" where
  "entries s pid = List.map_filter (listed (tracks s)) (project_rows (project_tracks s) pid)"

subsection \<open>Runs of operations\<close>

text \<open>
  A call of one of the three writers with its arguments, the dates the clock shows
  first.
\<close>

datatype call =
  CreateProject string string string string string string string
  | AddTrack string string string string string
  | RemoveTrack string string string

text \<open>The store a call leaves behind, whether it succeeds or fails.\<close>

fun perform :: "call \<Rightarrow> store \<Rightarrow> store" where
  "perform (CreateProject today n d f k dl c) s = snd (create_project today n d f k dl c s)"
| "perform (AddTrack today today' pid tid n) s = snd (add_track today today' pid tid n s)"
| "perform (RemoveTrack today pid tid) s = snd (remove_track today pid tid s)"

definition run :: "call list \<Rightarrow> store \<Rightarrow> store" where
  "run calls s = fold perform calls s"

fun removes_from :: "string \<Rightarrow> call \<Rightarrow> bool" where
  "removes_from pid (RemoveTrack today pid' tid) = (pid' = pid)"
| "removes_from pid c = False"

text \<open>
  The membership invariants: no composite key twice, and no position number twice
  within a project.
\<close>

definition unique_keys :: "project_track list \<Rightarrow> bool" where
  "unique_keys rows = distinct (map membership_key rows)"

definition unique_positions :: "project_track list \<Rightarrow> bool" where
  "unique_positions rows = distinct (map (\<lambda>r. (pt_project_id r, py_int (position r))) rows)"

definition membership_invariant :: "store \<Rightarrow> bool" where
  "membership_invariant s =
     (unique_keys (project_tracks s) \<and> unique_positions (project_tracks s))"

text \<open>The positions of a project are 1, 2, ..., n in file order.\<close>

definition dense_positions :: "project_track list \<Rightarrow> string \<Rightarrow> bool" where
  "dense_positions rows pid =
     (map (\<lambda>r. py_int (position r)) (project_rows rows pid) =
        map (\<lambda>k. Some (int k)) [1..<Suc (length (project_rows rows pid))])"

subsection \<open>A small store\<close>

text \<open>One project, one track in the catalog, no membership.\<close>

definition demo_project :: project where
  "demo_project =
     \<lparr>project_id = ''P001'', name = ''Spring Launch'', description = ''Upbeat spot'',
      for_field = ''TV Commercial'', keywords_col = ''bright;pop'',
      created_on = ''2025-01-10'', modified_on = ''2025-01-10'', status = ''Active'',
      deadline = ''2025-12-31'', collaborators = ''Ana;Li''\<rparr>"

definition demo_track :: track where
  "demo_track =
     \<lparr>track_id = ''T1'', track_title = ''Good Rockin'', track_description = ''Rockabilly'',
      bpm = ''120'', duration = ''150'', album_title = ''Rock'', library_name = ''RCK'',
      composer = ''Roy'', genre = ''1200'', additional_genres = ''1201;1202'',
      apm_release_date = ''2020-01-01'', has_stems = ''true''\<rparr>"

definition demo_store :: store where
  "demo_store = \<lparr>projects = [demo_project], project_tracks = [], tracks = [demo_track]\<rparr>"

definition demo_request :: request where
  "demo_request =
     \<lparr>rq_today = ''2025-02-01'', rq_name = ''Autumn'', rq_description = ''Moody'',
      rq_for_field = ''Film'', rq_keywords = '''', rq_deadline = ''2025-10-01'',
      rq_collaborators = ''''\<rparr>"

text \<open>The same with the track in the project.\<close>

definition demo_membership :: project_track where
  "demo_membership =
     \<lparr>pt_project_id = ''P001'', pt_track_id = ''T1'', added_date = ''2025-03-01'',
      position = ''1'', notes_col = ''''\<rparr>"

definition demo_store_listed :: store where
  "demo_store_listed = demo_store\<lparr>project_tracks := [demo_membership]\<rparr>"

text \<open>Two memberships out of position order, the first of a track the catalog lacks.\<close>

definition demo_membership_2 :: project_track where
  "demo_membership_2 =
     \<lparr>pt_project_id = ''P001'', pt_track_id = ''T2'', added_date = ''2025-03-05'',
      position = ''2'', notes_col = ''intro''\<rparr>"

definition demo_store_two :: store where
  "demo_store_two = demo_store\<lparr>project_tracks := [demo_membership_2, demo_membership]\<rparr>"

text \<open>The project with the second membership only, and with three memberships.\<close>

definition demo_store_one :: store where
  "demo_store_one = demo_store\<lparr>project_tracks := [demo_membership_2]\<rparr>"

definition demo_membership_3 :: project_track where
  "demo_membership_3 =
     \<lparr>pt_project_id = ''P001'', pt_track_id = ''T3'', added_date = ''2025-03-07'',
      position = ''3'', notes_col = ''''\<rparr>"

definition demo_store_three :: store where
  "demo_store_three =
     demo_store\<lparr>project_tracks := [demo_membership, demo_membership_2, demo_membership_3]\<rparr>"

text \<open>
  Stores outside the data model: a composite key twice, a membership of a project that
  the projects table lacks, a negative position, a position that is no integer.
\<close>

definition demo_store_dup :: store where
  "demo_store_dup =
     demo_store\<lparr>project_tracks :=
       [demo_membership, demo_membership_2, demo_membership\<lparr>position := ''3''\<rparr>]\<rparr>"

definition demo_store_orphan :: store where
  "demo_store_orphan =
     demo_store\<lparr>project_tracks :=
       [demo_membership\<lparr>pt_project_id := ''P009''\<rparr>, demo_membership]\<rparr>"

definition demo_store_negative :: store where
  "demo_store_negative =
     demo_store\<lparr>project_tracks := [demo_membership_2\<lparr>position := ''-3''\<rparr>]\<rparr>"

definition demo_store_fraction :: store where
  "demo_store_fraction =
     demo_store\<lparr>project_tracks := [demo_membership_2\<lparr>position := ''1.5''\<rparr>]\<rparr>"

text \<open>A run without removals: a track added, a project created, the track added again.\<close>

definition demo_calls :: "call list" where
  "demo_calls =
     [AddTrack ''2025-03-01'' ''2025-03-01'' ''P001'' ''T1'' '''',
      CreateProject ''2025-03-02'' ''Autumn'' ''Moody'' ''Film'' '''' ''2025-10-01'' '''',
      AddTrack ''2025-03-03'' ''2025-03-03'' ''P001'' ''T1'' ''again'']"

section \<open>Properties\<close>

subsection \<open>Decimal text read back\<close>

lemma digit_char_is_digit: "d < 10 \<Longrightarrow> is_digit (digit_char d)"
  by (simp add: is_digit_def digit_char_def)

lemma digit_value_digit_char: "d < 10 \<Longrightarrow> digit_value (digit_char d) = d"
  by (simp add: digit_value_def digit_char_def)

lemma decimal_digits: "c \<in> set (decimal n) \<Longrightarrow> is_digit c"
proof (induction n arbitrary: c rule: decimal.induct)
  case (1 n)
  show ?case
  proof (cases "n < 10")
    case True
    with "1.prems" show ?thesis
      by (simp add: decimal.simps [of n] digit_char_is_digit)
  next
    case False
    with "1.prems" "1.IH" show ?thesis
      by (auto simp: decimal.simps [of n] digit_char_is_digit)
  qed
qed

lemma decimal_not_Nil: "decimal n \<noteq> []"
  by (subst decimal.simps) simp

lemma digits_rest_digits:
  "\<forall>c \<in> set cs. is_digit c \<Longrightarrow> digits_rest acc cs = Some (digits_value acc cs)"
  by (induction cs arbitrary: acc) (simp_all add: digits_value_def)

lemma digits_value_append:
  "digits_value acc (xs @ ys) = digits_value (digits_value acc xs) ys"
  by (simp add: digits_value_def)

lemma digits_value_decimal:
  "digits_value acc (decimal n) = acc * 10 ^ length (decimal n) + n"
proof (induction n arbitrary: acc rule: decimal.induct)
  case (1 n)
  show ?case
  proof (cases "n < 10")
    case True
    then show ?thesis
      by (simp add: decimal.simps [of n] digits_value_def digit_value_digit_char)
  next
    case False
    have "digits_value acc (decimal n) =
            10 * digits_value acc (decimal (n div 10)) + n mod 10"
      using False
      by (simp add: decimal.simps [of n] digits_value_append)
         (simp add: digits_value_def digit_value_digit_char)
    also have "\<dots> = 10 * (acc * 10 ^ length (decimal (n div 10)) + n div 10) + n mod 10"
      using "1.IH" [OF False] by simp
    also have "\<dots> = acc * 10 ^ length (decimal n) + n"
      using False by (simp add: decimal.simps [of n] algebra_simps)
    finally show ?thesis .
  qed
qed

lemma digits_value_zeros: "digits_value 0 (replicate k (CHR ''0'')) = 0"
  by (induction k) (simp_all add: digits_value_def digit_value_def)

lemma is_digit_zero: "is_digit (CHR ''0'')"
  by (simp add: is_digit_def)

lemma filter_all: "\<forall>x \<in> set xs. P x \<Longrightarrow> filter P xs = xs"
  by (simp add: filter_id_conv)

lemma unsigned_int_padded:
  assumes "k + length (decimal n) \<le> int_max_str_digits"
  shows "unsigned_int (replicate k (CHR ''0'') @ decimal n) = Some n"
proof -
  let ?s = "replicate k (CHR ''0'') @ decimal n"
  have all: "\<forall>c \<in> set ?s. is_digit c"
    by (auto simp: is_digit_zero decimal_digits)
  have ne: "?s \<noteq> []" by (simp add: decimal_not_Nil)
  then obtain c cs where s: "?s = c # cs" by (cases ?s) auto
  with all have c: "is_digit c" and cs: "\<forall>c \<in> set cs. is_digit c"
    by (metis list.set_intros(1), metis list.set_intros(2))
  have "length (filter is_digit ?s) \<le> int_max_str_digits"
    using assms filter_all [OF all] by simp
  then have "unsigned_int ?s = Some (digits_value (digit_value c) cs)"
    using c cs by (simp add: s unsigned_int_def digits_rest_digits)
  also have "digits_value (digit_value c) cs = digits_value 0 ?s"
    by (simp add: s digits_value_def)
  also have "\<dots> = n"
    by (simp add: digits_value_append digits_value_zeros digits_value_decimal)
  finally show ?thesis .
qed

lemma is_digit_not_space: "is_digit c \<Longrightarrow> \<not> py_isspace c"
  by (auto simp: is_digit_def py_isspace_def Let_def)

lemma py_strip_id:
  assumes "s \<noteq> []" "\<not> py_isspace (hd s)" "\<not> py_isspace (last s)"
  shows "py_strip s = s"
proof -
  from assms have 1: "dropWhile py_isspace s = s"
    by (cases s) auto
  from assms have "rev s \<noteq> []" "\<not> py_isspace (hd (rev s))"
    by (simp_all add: hd_rev)
  then have "dropWhile py_isspace (rev s) = rev s"
    by (cases "rev s") auto
  with 1 show ?thesis by (simp add: py_strip_def)
qed

lemma py_int_digits:
  assumes "s \<noteq> []" "\<forall>c \<in> set s. is_digit c"
  shows "py_int s = map_option int (unsigned_int s)"
proof -
  from assms have "py_strip s = s"
    by (intro py_strip_id) (auto simp: is_digit_not_space)
  moreover obtain c cs where s: "s = c # cs" using assms(1) by (cases s) auto
  moreover have "is_digit c" using assms(2) s by simp
  then have "c \<noteq> CHR ''-''" "c \<noteq> CHR ''+''" by (auto simp: is_digit_def)
  ultimately show ?thesis by (simp add: py_int_def)
qed

lemma format_03d_text_nonneg:
  "0 \<le> n \<Longrightarrow>
     format_03d_text n =
       replicate (3 - length (decimal (nat n))) (CHR ''0'') @ decimal (nat n)"
  by (simp add: format_03d_text_def Let_def)

lemma py_int_format_03d_text:
  assumes "0 \<le> n" "str_digits_ok n"
  shows "py_int (format_03d_text n) = Some n"
proof -
  let ?s = "replicate (3 - length (decimal (nat n))) (CHR ''0'') @ decimal (nat n)"
  have "py_int ?s = map_option int (unsigned_int ?s)"
    by (rule py_int_digits) (auto simp: decimal_not_Nil is_digit_zero decimal_digits)
  moreover have "3 - length (decimal (nat n)) + length (decimal (nat n)) \<le> int_max_str_digits"
    using assms by (simp add: str_digits_ok_def int_max_str_digits_def)
  ultimately show ?thesis
    using assms(1) by (simp add: format_03d_text_nonneg unsigned_int_padded)
qed

lemma py_int_py_str_text:
  assumes "0 \<le> n" "str_digits_ok n"
  shows "py_int (py_str_text n) = Some n"
proof -
  have "py_int (decimal (nat n)) = map_option int (unsigned_int (decimal (nat n)))"
    by (rule py_int_digits) (auto simp: decimal_not_Nil decimal_digits)
  moreover have "0 + length (decimal (nat n)) \<le> int_max_str_digits"
    using assms by (simp add: str_digits_ok_def)
  ultimately show ?thesis
    using assms(1) unsigned_int_padded [of 0 "nat n"] by (simp add: py_str_text_def)
qed

lemma py_int_py_str: "0 \<le> n \<Longrightarrow> py_str n = Some text \<Longrightarrow> py_int text = Some n"
  by (auto simp: py_str_def py_int_py_str_text split: if_splits)

lemma decimal_length_mono: "m \<le> n \<Longrightarrow> length (decimal m) \<le> length (decimal n)"
proof (induction n arbitrary: m rule: decimal.induct)
  case (1 n)
  show ?case
  proof (cases "m < 10")
    case True
    then have "length (decimal m) = 1" by (simp add: decimal.simps [of m])
    moreover have "1 \<le> length (decimal n)"
      using decimal_not_Nil [of n] by (cases "decimal n") simp_all
    ultimately show ?thesis by simp
  next
    case False
    with "1.prems" have n: "\<not> n < 10" by simp
    from "1.prems" have "m div 10 \<le> n div 10" by (rule div_le_mono)
    from "1.IH" [OF n this] False n show ?thesis
      by (simp add: decimal.simps [of m] decimal.simps [of n])
  qed
qed

lemma str_digits_ok_mono:
  assumes "0 \<le> m" "m \<le> n" "str_digits_ok n"
  shows "str_digits_ok m"
proof -
  from assms(1,2) have "nat m \<le> nat n" by simp
  then have "length (decimal (nat m)) \<le> length (decimal (nat n))"
    by (rule decimal_length_mono)
  with assms show ?thesis by (simp add: str_digits_ok_def)
qed

lemma is_digit_not_P: "is_digit c \<Longrightarrow> c \<noteq> CHR ''P''"
  by (auto simp: is_digit_def)

lemma replace_P_format_03d_text:
  "0 \<le> n \<Longrightarrow> replace_P (CHR ''P'' # format_03d_text n) = format_03d_text n"
proof -
  have "\<forall>c \<in> set (format_03d_text n). c \<noteq> CHR ''P''" if "0 \<le> n"
    using that by (auto simp: format_03d_text_nonneg dest: decimal_digits is_digit_not_P)
  then show "0 \<le> n \<Longrightarrow> replace_P (CHR ''P'' # format_03d_text n) = format_03d_text n"
    by (simp add: replace_P_def)
qed

subsection \<open>Project identifiers\<close>

lemma max_project_id_fold:
  "readable_projects rows \<Longrightarrow>
     max_project_id m rows = Inr (fold max (project_numbers rows) m)"
proof (induction rows arbitrary: m)
  case Nil
  then show ?case by (simp add: project_numbers_def List.map_filter_simps)
next
  case (Cons row rows)
  from Cons.prems obtain n where n: "id_number (project_id row) = Some n"
    and v: "readable_projects rows"
    by (auto simp: readable_projects_def split: option.splits)
  have "project_numbers (row # rows) = n # project_numbers rows"
    using n by (simp add: project_numbers_def List.map_filter_simps)
  with n Cons.IH [OF v] show ?case
    by (simp add: id_number_def max.commute)
qed

lemma readable_project_numbers:
  "readable_projects rows \<Longrightarrow> length (project_numbers rows) = length rows \<and> (\<forall>n \<in> set (project_numbers rows). 0 \<le> n)"
  by (induction rows)
     (auto simp: readable_projects_def project_numbers_def List.map_filter_simps split: option.splits)

lemma fold_max_Max: "fold max ns (m::int) = Max (set (m # ns))"
  by (simp only: Max.set_eq_fold)

lemma max_project_id_readable:
  assumes "readable_projects rows"
  shows "max_project_id 0 rows = Inr (max_suffix rows)"
proof (cases "rows = []")
  case True
  then show ?thesis by (simp add: max_suffix_def)
next
  case False
  let ?ns = "project_numbers rows"
  from assms readable_project_numbers [of rows] False
  have ne: "set ?ns \<noteq> {}" and pos: "\<forall>n \<in> set ?ns. 0 \<le> n"
    by auto
  then have "0 \<le> Max (set ?ns)"
    by (meson List.finite_set Max_in)
  then have "Max (set (0 # ?ns)) = Max (set ?ns)"
    using ne by (simp add: max_def)
  with assms False show ?thesis
    by (simp add: max_project_id_fold fold_max_Max max_suffix_def del: set_simps)
qed

lemma max_suffix_nonneg:
  assumes "readable_projects rows"
  shows "0 \<le> max_suffix rows"
proof (cases "rows = []")
  case True
  then show ?thesis by (simp add: max_suffix_def)
next
  case False
  with assms readable_project_numbers [of rows]
  have "set (project_numbers rows) \<noteq> {}" "\<forall>n \<in> set (project_numbers rows). 0 \<le> n"
    by auto
  then have "0 \<le> Max (set (project_numbers rows))"
    by (meson List.finite_set Max_in)
  with False show ?thesis by (simp add: max_suffix_def)
qed

lemma max_suffix_upper:
  assumes "row \<in> set rows" "id_number (project_id row) = Some n"
  shows "n \<le> max_suffix rows"
proof -
  from assms have "n \<in> set (project_numbers rows)"
    by (force simp: project_numbers_def List.map_filter_def)
  moreover from assms have "rows \<noteq> []" by auto
  ultimately show ?thesis by (simp add: max_suffix_def)
qed

lemma id_number_fresh:
  "0 \<le> n \<Longrightarrow> str_digits_ok n \<Longrightarrow> id_number (CHR ''P'' # format_03d_text n) = Some n"
  by (simp add: id_number_def replace_P_format_03d_text py_int_format_03d_text)

lemma get_next_project_id_readable:
  "readable_projects rows \<Longrightarrow>
     get_next_project_id rows =
       (case format_03d (max_suffix rows + 1) of
          None \<Rightarrow> Inl ValueError
        | Some digits \<Rightarrow> Inr (CHR ''P'' # digits))"
  by (simp add: get_next_project_id_def max_project_id_readable)

lemma next_id_fresh:
  assumes "readable_projects rows" "str_digits_ok (max_suffix rows + 1)"
  shows "CHR ''P'' # format_03d_text (max_suffix rows + 1) \<notin> project_id ` set rows"
proof
  let ?pid = "CHR ''P'' # format_03d_text (max_suffix rows + 1)"
  assume "?pid \<in> project_id ` set rows"
  then obtain row where row: "row \<in> set rows" "project_id row = ?pid" by auto
  from assms have "0 \<le> max_suffix rows + 1"
    using max_suffix_nonneg [of rows] by simp
  then have "id_number (project_id row) = Some (max_suffix rows + 1)"
    using row(2) assms(2) by (simp add: id_number_fresh)
  from max_suffix_upper [OF row(1) this] show False by simp
qed

lemma readable_projects_append:
  "readable_projects (rows @ [row]) \<longleftrightarrow>
     readable_projects rows \<and> (\<exists>n. id_number (project_id row) = Some n \<and> 0 \<le> n)"
  by (auto simp: readable_projects_def split: option.splits)

lemma project_numbers_append:
  "id_number (project_id row) = Some n \<Longrightarrow>
     project_numbers (rows @ [row]) = project_numbers rows @ [n]"
  by (simp add: project_numbers_def List.map_filter_def)

lemma max_suffix_append:
  assumes "readable_projects rows" "id_number (project_id row) = Some (max_suffix rows + 1)"
  shows "max_suffix (rows @ [row]) = max_suffix rows + 1"
proof (cases "rows = []")
  case True
  with assms show ?thesis
    by (simp add: max_suffix_def project_numbers_def List.map_filter_simps)
next
  case False
  with assms(1) readable_project_numbers [of rows]
  have ne: "set (project_numbers rows) \<noteq> {}" by auto
  have "max_suffix (rows @ [row]) =
          Max (insert (max_suffix rows + 1) (set (project_numbers rows)))"
    by (simp add: max_suffix_def project_numbers_append [OF assms(2)])
  also have "\<dots> = max (max_suffix rows + 1) (Max (set (project_numbers rows)))"
    using ne by simp
  also have "\<dots> = max_suffix rows + 1"
    using False by (simp add: max_suffix_def)
  finally show ?thesis .
qed

lemma decimal_length_le_3: "n < 1000 \<Longrightarrow> length (decimal n) \<le> 3"
  by (simp add: decimal.simps [of n] decimal.simps [of "n div 10"]
        decimal.simps [of "n div 10 div 10"])

lemma format_03d_text_length:
  "0 \<le> n \<Longrightarrow> n < 1000 \<Longrightarrow> length (format_03d_text n) = 3"
  using decimal_length_le_3 [of "nat n"] by (simp add: format_03d_text_nonneg)

lemma str_digits_ok_small:
  assumes "0 \<le> n" "n < 1000"
  shows "str_digits_ok n"
proof -
  from assms have "nat n < 1000" by simp
  then have "length (decimal (nat n)) \<le> 3" by (rule decimal_length_le_3)
  with assms(1) show ?thesis
    by (simp add: str_digits_ok_def int_max_str_digits_def)
qed

lemma format_03d_1: "format_03d 1 = Some ''001''"
  by code_simp

lemma valid_projects_readable: "valid_projects rows \<Longrightarrow> readable_projects rows"
  by (induction rows) (auto simp: valid_projects_def readable_projects_def split: option.splits)

lemma valid_projects_next:
  assumes "valid_projects rows"
  shows "str_digits_ok (max_suffix rows + 1)"
proof (cases "rows = []")
  case True
  then show ?thesis by (simp add: max_suffix_def str_digits_ok_small)
next
  case False
  let ?ns = "project_numbers rows"
  from assms False readable_project_numbers [OF valid_projects_readable [OF assms]]
  have "set ?ns \<noteq> {}" by auto
  then have "Max (set ?ns) \<in> set ?ns"
    by (meson List.finite_set Max_in)
  then obtain row where "row \<in> set rows" "id_number (project_id row) = Some (Max (set ?ns))"
    by (auto simp: project_numbers_def List.map_filter_def)
  with assms have "str_digits_ok (Max (set ?ns) + 1)"
    by (auto simp: valid_projects_def list_all_iff)
  with False show ?thesis by (simp add: max_suffix_def)
qed

lemma create_project_ok:
  assumes "readable_projects (projects s)" "str_digits_ok (max_suffix (projects s) + 1)"
  shows "create_project today n d f k dl c s =
           (Inr (CHR ''P'' # format_03d_text (max_suffix (projects s) + 1)),
            s\<lparr>projects := projects s @
               [\<lparr>project_id = CHR ''P'' # format_03d_text (max_suffix (projects s) + 1),
                 name = universal_newlines n, description = universal_newlines d,
                 for_field = universal_newlines f, keywords_col = universal_newlines k,
                 created_on = today, modified_on = today, status = ''Active'',
                 deadline = universal_newlines dl,
                 collaborators = universal_newlines c\<rparr>]\<rparr>)"
  using assms by (simp add: create_project_def get_next_project_id_readable format_03d_def)

lemma create_project_limit:
  assumes "readable_projects (projects s)" "\<not> str_digits_ok (max_suffix (projects s) + 1)"
  shows "create_project today n d f k dl c s = (Inl ValueError, s)"
  using assms by (simp add: create_project_def get_next_project_id_readable format_03d_def)

lemma assigned_ids_Inr: "assigned_ids ((before, Inr pid) # trace) = pid # assigned_ids trace"
  by (simp add: assigned_ids_def List.map_filter_simps)

lemma assigned_ids_Inl: "assigned_ids ((before, Inl e) # trace) = assigned_ids trace"
  by (simp add: assigned_ids_def List.map_filter_simps)

lemma create_projects_trace:
  assumes "readable_projects (projects s)" "create_projects reqs s = (trace, s')"
  shows "length trace = length reqs
       \<and> (\<forall>(before, out) \<in> set trace.
             readable_projects before
           \<and> out = (case format_03d (max_suffix before + 1) of
                      None \<Rightarrow> Inl ValueError
                    | Some digits \<Rightarrow> Inr (CHR ''P'' # digits)))
       \<and> assigned_ids trace =
           map (\<lambda>k. CHR ''P'' # format_03d_text (max_suffix (projects s) + 1 + int k))
             [0..<length (assigned_ids trace)]
       \<and> (\<forall>k < length (assigned_ids trace).
             str_digits_ok (max_suffix (projects s) + 1 + int k))
       \<and> map project_id (projects s') = map project_id (projects s) @ assigned_ids trace
       \<and> (str_digits_ok (max_suffix (projects s) + int (length reqs)) \<longrightarrow>
             length (assigned_ids trace) = length reqs)"
  using assms
proof (induction reqs arbitrary: s trace s')
  case Nil
  then show ?case by (auto simp: assigned_ids_def List.map_filter_simps)
next
  case (Cons r rs)
  let ?m = "max_suffix (projects s)"
  have nonneg: "0 \<le> ?m + 1"
    using max_suffix_nonneg [OF Cons.prems(1)] by simp
  show ?case
  proof (cases "str_digits_ok (?m + 1)")
    case True
    let ?pid = "CHR ''P'' # format_03d_text (?m + 1)"
    from create_project_ok [OF Cons.prems(1) True]
    obtain row where
      step: "create_project_request r s = (Inr ?pid, s\<lparr>projects := projects s @ [row]\<rparr>)"
      and row: "project_id row = ?pid"
      by (simp add: create_project_request_def)
    let ?s1 = "s\<lparr>projects := projects s @ [row]\<rparr>"
    obtain tr s2 where rest: "create_projects rs ?s1 = (tr, s2)"
      by (cases "create_projects rs ?s1")
    with step Cons.prems(2) have trace: "trace = (projects s, Inr ?pid) # tr" and s': "s' = s2"
      by simp_all
    have num: "id_number (project_id row) = Some (?m + 1)"
      using nonneg True by (simp add: row id_number_fresh)
    have readable1: "readable_projects (projects ?s1)"
      using Cons.prems(1) num nonneg by (simp add: readable_projects_append)
    have max1: "max_suffix (projects s @ [row]) = ?m + 1"
      using max_suffix_append [OF Cons.prems(1) num] by simp
    note IH = Cons.IH [OF readable1 rest]
    have eq: "max_suffix (projects ?s1) + 1 + int k = ?m + 1 + int (Suc k)" for k
      using max1 by simp
    have len: "length (assigned_ids trace) = Suc (length (assigned_ids tr))"
      by (simp add: trace assigned_ids_Inr)
    have "length trace = length (r # rs)"
      using IH by (simp add: trace)
    moreover have "\<forall>(before, out) \<in> set trace.
         readable_projects before
       \<and> out = (case format_03d (max_suffix before + 1) of
                  None \<Rightarrow> Inl ValueError
                | Some digits \<Rightarrow> Inr (CHR ''P'' # digits))"
      using IH Cons.prems(1) True by (simp add: trace format_03d_def)
    moreover have "assigned_ids trace =
        map (\<lambda>k. CHR ''P'' # format_03d_text (?m + 1 + int k))
          [0..<length (assigned_ids trace)]"
    proof -
      from IH have "assigned_ids tr =
          map (\<lambda>k. CHR ''P'' # format_03d_text (max_suffix (projects ?s1) + 1 + int k))
            [0..<length (assigned_ids tr)]"
        by blast
      then have "assigned_ids tr =
          map (\<lambda>k. CHR ''P'' # format_03d_text (?m + 1 + int (Suc k)))
            [0..<length (assigned_ids tr)]"
        unfolding eq .
      then show ?thesis
        unfolding len by (simp add: trace assigned_ids_Inr map_upt_Suc del: upt_Suc)
    qed
    moreover have "\<forall>k < length (assigned_ids trace). str_digits_ok (?m + 1 + int k)"
    proof (intro allI impI)
      fix k assume k: "k < length (assigned_ids trace)"
      show "str_digits_ok (?m + 1 + int k)"
      proof (cases k)
        case 0
        with True show ?thesis by simp
      next
        case (Suc j)
        with k len have "j < length (assigned_ids tr)" by simp
        with IH have "str_digits_ok (max_suffix (projects ?s1) + 1 + int j)" by blast
        then show ?thesis unfolding eq Suc .
      qed
    qed
    moreover have "map project_id (projects s') = map project_id (projects s) @ assigned_ids trace"
      using IH by (simp add: s' trace assigned_ids_Inr row)
    moreover have "length (assigned_ids trace) = length (r # rs)"
      if "str_digits_ok (?m + int (length (r # rs)))"
    proof -
      have "max_suffix (projects ?s1) + int (length rs) = ?m + int (length (r # rs))"
        using max1 by simp
      with that have "str_digits_ok (max_suffix (projects ?s1) + int (length rs))"
        by (simp only:)
      with IH have "length (assigned_ids tr) = length rs" by blast
      with len show ?thesis by simp
    qed
    ultimately show ?thesis by blast
  next
    case False
    from create_project_limit [OF Cons.prems(1) False]
    have step: "create_project_request r s = (Inl ValueError, s)"
      by (simp add: create_project_request_def)
    obtain tr s2 where rest: "create_projects rs s = (tr, s2)"
      by (cases "create_projects rs s")
    with step Cons.prems(2) have trace: "trace = (projects s, Inl ValueError) # tr"
      and s': "s' = s2"
      by simp_all
    note IH = Cons.IH [OF Cons.prems(1) rest]
    have none: "assigned_ids tr = []"
    proof (rule ccontr)
      assume "assigned_ids tr \<noteq> []"
      then have "0 < length (assigned_ids tr)" by simp
      with IH have "str_digits_ok (?m + 1 + int 0)" by blast
      with False show False by simp
    qed
    have "length trace = length (r # rs)"
      using IH by (simp add: trace)
    moreover have "\<forall>(before, out) \<in> set trace.
         readable_projects before
       \<and> out = (case format_03d (max_suffix before + 1) of
                  None \<Rightarrow> Inl ValueError
                | Some digits \<Rightarrow> Inr (CHR ''P'' # digits))"
      using IH Cons.prems(1) False by (simp add: trace format_03d_def)
    moreover have "assigned_ids trace = []"
      by (simp add: trace assigned_ids_Inl none)
    moreover have "map project_id (projects s') = map project_id (projects s)"
      using IH by (simp add: s' none)
    moreover have "\<not> str_digits_ok (?m + int (length (r # rs)))"
    proof
      assume "str_digits_ok (?m + int (length (r # rs)))"
      moreover have "?m + 1 \<le> ?m + int (length (r # rs))" by simp
      ultimately have "str_digits_ok (?m + 1)"
        using nonneg str_digits_ok_mono by blast
      with False show False by simp
    qed
    ultimately show ?thesis by simp
  qed
qed

lemma assigned_numbers_of_ids:
  assumes "0 \<le> m" "\<forall>k \<in> set ks. str_digits_ok (m + int k)"
  shows "List.map_filter id_number (map (\<lambda>k. CHR ''P'' # format_03d_text (m + int k)) ks) =
           map (\<lambda>k. m + int k) ks"
  using assms by (induction ks) (simp_all add: List.map_filter_simps id_number_fresh)

lemma strictly_increasing_from: "sorted_wrt (<) (map (\<lambda>k. (m::int) + int k) [0..<n])"
  by (simp add: sorted_wrt_map sorted_wrt_upt del: upt.simps)

text \<open>
  C1. In a run of \<open>create_project\<close> calls from a projects table whose identifiers all
  have a number that is not negative, as those of a valid table do, every call that
  assigns an identifier assigns the letter \<open>P\<close> followed by the \<open>03d\<close> rendering of one
  more than the maximum numeric suffix of the table it found: \<open>P001\<close> on the empty
  table, three digits while the number is below 1000. A call assigns an identifier
  unless that number has more digits than the interpreter prints, where it raises
  \<open>ValueError\<close>. The numbers of the assigned identifiers are consecutive from one past
  the initial maximum, hence strictly increasing; the identifiers are pairwise
  distinct, none of them is in the initial table, and the final table has the initial
  identifiers followed by the assigned ones. Every call assigns one when the last
  number is within the interpreter's limit.
\<close>

theorem create_project_ids_sequential:
  assumes "readable_projects (projects s)" and "create_projects reqs s = (trace, s')"
  shows "length trace = length reqs
       \<and> (\<forall>(before, out) \<in> set trace.
             out = (case format_03d (max_suffix before + 1) of
                      None \<Rightarrow> Inl ValueError
                    | Some digits \<Rightarrow> Inr (CHR ''P'' # digits))
           \<and> (before = [] \<longrightarrow> out = Inr ''P001'')
           \<and> (max_suffix before + 1 < 1000 \<longrightarrow>
                (\<exists>digits. out = Inr (CHR ''P'' # digits) \<and> length digits = 3)))
       \<and> assigned_numbers trace =
           map (\<lambda>k. max_suffix (projects s) + 1 + int k) [0..<length (assigned_ids trace)]
       \<and> sorted_wrt (<) (assigned_numbers trace)
       \<and> distinct (assigned_ids trace)
       \<and> set (assigned_ids trace) \<inter> project_id ` set (projects s) = {}
       \<and> map project_id (projects s') = map project_id (projects s) @ assigned_ids trace
       \<and> (str_digits_ok (max_suffix (projects s) + int (length reqs)) \<longrightarrow>
             length (assigned_ids trace) = length reqs)"
proof -
  let ?m = "max_suffix (projects s) + 1"
  let ?g = "\<lambda>k. CHR ''P'' # format_03d_text (?m + int k)"
  let ?n = "length (assigned_ids trace)"
  note tr = create_projects_trace [OF assms]
  from tr have ids: "assigned_ids trace = map ?g [0..<?n]" by blast
  from tr have ok: "\<forall>k \<in> set [0..<?n]. str_digits_ok (?m + int k)" by simp
  have m: "0 \<le> ?m" using max_suffix_nonneg [OF assms(1)] by simp
  have num: "id_number (?g k) = Some (?m + int k)" if "k < ?n" for k
    using m that ok by (simp add: id_number_fresh)
  have nums: "assigned_numbers trace = map (\<lambda>k. ?m + int k) [0..<?n]"
    unfolding assigned_numbers_def
    by (subst ids) (rule assigned_numbers_of_ids [OF m ok])
  have "length trace = length reqs"
    using tr by blast
  moreover have "\<forall>(before, out) \<in> set trace.
         out = (case format_03d (max_suffix before + 1) of
                  None \<Rightarrow> Inl ValueError
                | Some digits \<Rightarrow> Inr (CHR ''P'' # digits))
       \<and> (before = [] \<longrightarrow> out = Inr ''P001'')
       \<and> (max_suffix before + 1 < 1000 \<longrightarrow>
            (\<exists>digits. out = Inr (CHR ''P'' # digits) \<and> length digits = 3))"
  proof (clarify, intro conjI impI)
    fix before out
    assume "(before, out) \<in> set trace"
    with tr have v: "readable_projects before"
      and out: "out = (case format_03d (max_suffix before + 1) of
                         None \<Rightarrow> Inl ValueError
                       | Some digits \<Rightarrow> Inr (CHR ''P'' # digits))"
      by auto
    show "out = (case format_03d (max_suffix before + 1) of
                   None \<Rightarrow> Inl ValueError
                 | Some digits \<Rightarrow> Inr (CHR ''P'' # digits))"
      by (rule out)
    show "out = Inr ''P001''" if "before = []"
      using that out by (simp add: max_suffix_def format_03d_1)
    show "\<exists>digits. out = Inr (CHR ''P'' # digits) \<and> length digits = 3"
      if "max_suffix before + 1 < 1000"
      using that max_suffix_nonneg [OF v] out
      by (simp add: format_03d_def str_digits_ok_small format_03d_text_length)
  qed
  moreover note nums
  moreover have "sorted_wrt (<) (assigned_numbers trace)"
    unfolding nums by (rule strictly_increasing_from)
  moreover have "distinct (assigned_ids trace)"
  proof -
    have "inj_on ?g (set [0..<?n])"
    proof (rule inj_onI)
      fix a b assume a: "a \<in> set [0..<?n]" and b: "b \<in> set [0..<?n]" and "?g a = ?g b"
      then have "id_number (?g a) = id_number (?g b)" by simp
      moreover from a b have "a < ?n" "b < ?n" by simp_all
      ultimately show "a = b" by (simp only: num) simp
    qed
    then have "distinct (map ?g [0..<?n])"
      by (simp add: distinct_map del: upt.simps)
    then show ?thesis by (subst ids)
  qed
  moreover have "set (assigned_ids trace) \<inter> project_id ` set (projects s) = {}"
  proof -
    have False if "row \<in> set (projects s)" "project_id row = ?g k" "k < ?n" for row k
    proof -
      have "id_number (project_id row) = Some (?m + int k)"
        by (simp only: that(2) num [OF that(3)])
      from max_suffix_upper [OF that(1) this] show False by simp
    qed
    then have "\<forall>x \<in> set (map ?g [0..<?n]). x \<notin> project_id ` set (projects s)"
      by (fastforce simp del: upt.simps)
    then have "\<forall>x \<in> set (assigned_ids trace). x \<notin> project_id ` set (projects s)"
      by (subst ids)
    then show ?thesis by blast
  qed
  moreover from tr have "map project_id (projects s') = map project_id (projects s) @ assigned_ids trace"
    by blast
  moreover from tr have "str_digits_ok (max_suffix (projects s) + int (length reqs)) \<longrightarrow>
             length (assigned_ids trace) = length reqs"
    by blast
  ultimately show ?thesis by blast
qed

lemma demo_store_readable: "readable_projects (projects demo_store)"
  by code_simp

lemma demo_store_valid: "valid_projects (projects demo_store)"
  by code_simp

lemma demo_store_max_suffix: "max_suffix (projects demo_store) = 1"
  by code_simp

lemma str_digits_ok_3: "str_digits_ok 3"
  by code_simp

theorem create_project_ids_sequential_witness:
  "readable_projects (projects demo_store)
   \<and> assigned_numbers (fst (create_projects [demo_request, demo_request] demo_store)) = [2, 3]
   \<and> distinct (assigned_ids (fst (create_projects [demo_request, demo_request] demo_store)))"
proof -
  let ?run = "create_projects [demo_request, demo_request] demo_store"
  have run: "?run = (fst ?run, snd ?run)" by simp
  note res = create_project_ids_sequential [OF demo_store_readable run]
  from res have "str_digits_ok (max_suffix (projects demo_store)
        + int (length [demo_request, demo_request])) \<longrightarrow>
      length (assigned_ids (fst ?run)) = length [demo_request, demo_request]"
    by blast
  then have len: "length (assigned_ids (fst ?run)) = Suc (Suc 0)"
    by (simp add: demo_store_max_suffix str_digits_ok_3 del: create_projects.simps)
  from res have "assigned_numbers (fst ?run) =
      map (\<lambda>k. max_suffix (projects demo_store) + 1 + int k)
        [0..<length (assigned_ids (fst ?run))]"
    by blast
  then have "assigned_numbers (fst ?run) = [2, 3]"
    unfolding len by (simp add: demo_store_max_suffix del: create_projects.simps)
  moreover from res have "distinct (assigned_ids (fst ?run))"
    by blast
  ultimately show ?thesis
    using demo_store_readable by blast
qed

subsection \<open>\<open>create_project\<close>\<close>

lemma format_03d_2: "format_03d 2 = Some ''002''"
  by code_simp

text \<open>
  C8. On a valid projects table, for all argument strings, \<open>create_project\<close> does not
  fail: it returns the next identifier and leaves the store with the projects table
  extended at the end by one row, which has the identifier, the arguments as they are
  read back, the current date in \<open>created_on\<close> and in \<open>modified_on\<close>, and the status
  \<open>Active\<close>. The rows before it and the other two tables are as they were.
\<close>

theorem create_project_appends_row:
  assumes "valid_projects (projects s)"
  shows "\<exists>pid digits row s'.
           create_project today n d f k dl c s = (Inr pid, s')
         \<and> format_03d (max_suffix (projects s) + 1) = Some digits
         \<and> pid = CHR ''P'' # digits
         \<and> row = \<lparr>project_id = pid, name = universal_newlines n,
                   description = universal_newlines d,
                   for_field = universal_newlines f,
                   keywords_col = universal_newlines k,
                   created_on = today, modified_on = today,
                   status = ''Active'', deadline = universal_newlines dl,
                   collaborators = universal_newlines c\<rparr>
         \<and> projects s' = projects s @ [row]
         \<and> project_tracks s' = project_tracks s
         \<and> tracks s' = tracks s"
  using create_project_ok [OF valid_projects_readable [OF assms] valid_projects_next [OF assms]]
    valid_projects_next [OF assms]
  by (simp add: format_03d_def)

theorem create_project_appends_row_witness:
  "valid_projects (projects demo_store)
   \<and> fst (create_project ''2025-02-01'' ''Autumn'' ''Moody'' ''Film'' '''' ''2025-10-01'' ''''
        demo_store) = Inr ''P002''"
  using create_project_appends_row [OF demo_store_valid,
      of "''2025-02-01''" "''Autumn''" "''Moody''" "''Film''" "''''" "''2025-10-01''" "''''"]
    demo_store_valid
  by (auto simp: demo_store_max_suffix format_03d_2)

subsection \<open>Existence checks\<close>

lemma validate_project_exists_iff:
  "validate_project_exists rows pid \<longleftrightarrow> pid \<in> project_id ` set rows"
  by (induction rows) auto

lemma validate_track_exists_iff:
  "validate_track_exists rows tid \<longleftrightarrow> tid \<in> track_id ` set rows"
  by (induction rows) auto

lemma track_in_project_iff:
  "track_in_project rows pid tid \<longleftrightarrow> (pid, tid) \<in> membership_key ` set rows"
  by (induction rows) (auto simp: membership_key_def)

subsection \<open>\<open>add_track\<close>: the checks\<close>

text \<open>
  C2. \<open>add_track\<close> checks the project first, then the track, then the membership: an
  unknown project gives \<open>NotFound_project\<close> whatever the track is; a known project with
  an unknown track gives \<open>NotFound_track\<close> whether or not the pair is a membership; a
  known project and track with the pair already present give
  \<open>Conflict_duplicate_membership\<close>. Whenever \<open>add_track\<close> fails, with these or any
  other error, the store is the one it was called on.
\<close>

theorem add_track_checks_in_order:
  "(pid \<notin> project_id ` set (projects s) \<longrightarrow>
      add_track today today' pid tid n s = (Inl NotFound_project, s))
   \<and> (pid \<in> project_id ` set (projects s) \<and> tid \<notin> track_id ` set (tracks s) \<longrightarrow>
      add_track today today' pid tid n s = (Inl NotFound_track, s))
   \<and> (pid \<in> project_id ` set (projects s) \<and> tid \<in> track_id ` set (tracks s)
        \<and> (pid, tid) \<in> membership_key ` set (project_tracks s) \<longrightarrow>
      add_track today today' pid tid n s = (Inl Conflict_duplicate_membership, s))
   \<and> (\<forall>e s'. add_track today today' pid tid n s = (Inl e, s') \<longrightarrow> s' = s)"
  by (auto simp: add_track_def validate_project_exists_iff validate_track_exists_iff
        track_in_project_iff Let_def split: sum.splits option.splits)

theorem add_track_checks_in_order_witness:
  "add_track ''2025-03-02'' ''2025-03-02'' ''P999'' ''T9'' '''' demo_store
     = (Inl NotFound_project, demo_store)
   \<and> add_track ''2025-03-02'' ''2025-03-02'' ''P001'' ''T9'' '''' demo_store
     = (Inl NotFound_track, demo_store)
   \<and> add_track ''2025-03-02'' ''2025-03-02'' ''P001'' ''T1'' '''' demo_store_listed
     = (Inl Conflict_duplicate_membership, demo_store_listed)"
  using add_track_checks_in_order [of "''P999''" demo_store "''2025-03-02''" "''2025-03-02''" "''T9''" "''''"]
    add_track_checks_in_order [of "''P001''" demo_store "''2025-03-02''" "''2025-03-02''" "''T9''" "''''"]
    add_track_checks_in_order [of "''P001''" demo_store_listed "''2025-03-02''" "''2025-03-02''" "''T1''" "''''"]
  by (simp add: demo_store_listed_def demo_store_def demo_project_def demo_track_def
        demo_membership_def membership_key_def)

subsection \<open>\<open>update_project_modified\<close>\<close>

lemma update_project_modified_absent:
  "pid \<notin> project_id ` set rows \<Longrightarrow> update_project_modified today rows pid = rows"
  by (induction rows) auto

lemma update_project_modified_first:
  "pid \<notin> project_id ` set pre \<Longrightarrow> project_id r = pid \<Longrightarrow>
     update_project_modified today (pre @ r # post) pid = pre @ r\<lparr>modified_on := today\<rparr> # post"
  by (induction pre) auto

lemma update_project_modified_length:
  "length (update_project_modified today rows pid) = length rows"
  by (induction rows) auto

lemma update_project_modified_other_fields:
  "map (\<lambda>r. r\<lparr>modified_on := x\<rparr>) (update_project_modified today rows pid) =
     map (\<lambda>r. r\<lparr>modified_on := x\<rparr>) rows"
  by (induction rows) auto

lemma update_project_modified_find:
  "find (\<lambda>r. project_id r = pid) (update_project_modified today rows pid) =
     map_option (\<lambda>r. r\<lparr>modified_on := today\<rparr>) (find (\<lambda>r. project_id r = pid) rows)"
  by (induction rows) auto

lemma update_project_modified_ids:
  "project_id ` set (update_project_modified today rows pid) = project_id ` set rows"
  by (induction rows) auto

lemma add_track_projects:
  "add_track today today' pid tid n s = (Inr u, s') \<Longrightarrow>
     projects s' = update_project_modified today' (projects s) pid"
  by (auto simp: add_track_def Let_def split: if_splits sum.splits option.splits)

lemma remove_track_projects:
  "remove_track today pid tid s = (Inr u, s') \<Longrightarrow>
     projects s' = update_project_modified today (projects s) pid"
  by (auto simp: remove_track_def Let_def split: if_splits)

text \<open>
  C9. After a successful \<open>add_track\<close> or \<open>remove_track\<close> the projects table differs from
  the one before in the \<open>modified_on\<close> field of the first row of the project only: with
  no row of the project the table is the same; otherwise the rows before the first one
  of the project and all rows after it are the same, and that row has the date in
  \<open>modified_on\<close>. The number of rows is the same and, position by position, so is
  every field other than \<open>modified_on\<close>.
\<close>

theorem update_project_modified_frame:
  assumes "add_track today today' pid tid n s = (Inr (), s')
         \<or> remove_track today' pid tid s = (Inr (), s')"
  shows "(pid \<notin> project_id ` set (projects s) \<longrightarrow> projects s' = projects s)
       \<and> (\<forall>pre r post.
             projects s = pre @ r # post \<and> project_id r = pid
               \<and> pid \<notin> project_id ` set pre \<longrightarrow>
             projects s' = pre @ r\<lparr>modified_on := today'\<rparr> # post)
       \<and> length (projects s') = length (projects s)
       \<and> (\<forall>x. map (\<lambda>r. r\<lparr>modified_on := x\<rparr>) (projects s') =
                 map (\<lambda>r. r\<lparr>modified_on := x\<rparr>) (projects s))"
proof -
  from assms have "projects s' = update_project_modified today' (projects s) pid"
    by (auto dest: add_track_projects remove_track_projects)
  then show ?thesis
    by (auto simp: update_project_modified_absent update_project_modified_first
          update_project_modified_length update_project_modified_other_fields)
qed

lemma py_str_1: "py_str 1 = Some ''1''"
  by code_simp

lemma demo_add_track:
  "add_track ''2025-03-01'' ''2025-03-02'' ''P001'' ''T1'' '''' demo_store =
     (Inr (), demo_store\<lparr>project_tracks := [demo_membership],
                projects := [demo_project\<lparr>modified_on := ''2025-03-02''\<rparr>]\<rparr>)"
  by (simp add: add_track_def get_next_position_def py_str_1 demo_store_def demo_project_def
        demo_track_def demo_membership_def)

theorem update_project_modified_frame_witness:
  "add_track ''2025-03-01'' ''2025-03-02'' ''P001'' ''T1'' '''' demo_store =
     (Inr (), demo_store\<lparr>project_tracks := [demo_membership],
                projects := [demo_project\<lparr>modified_on := ''2025-03-02''\<rparr>]\<rparr>)
   \<and> length (projects (demo_store\<lparr>project_tracks := [demo_membership],
                projects := [demo_project\<lparr>modified_on := ''2025-03-02''\<rparr>]\<rparr>))
       = length (projects demo_store)"
  using update_project_modified_frame [OF disjI1, OF demo_add_track] demo_add_track
  by blast

subsection \<open>\<open>remove_track\<close>\<close>

lemma filter_length_eq_iff: "length (filter P xs) = length xs \<longleftrightarrow> (\<forall>x \<in> set xs. P x)"
  by (metis filter_id_conv length_filter_less less_irrefl)

lemma remove_track_filter_key:
  "filter (\<lambda>r. \<not> (pt_project_id r = pid \<and> pt_track_id r = tid)) rows =
     filter (\<lambda>r. membership_key r \<noteq> (pid, tid)) rows"
  by (simp add: membership_key_def)

lemma remove_track_absent:
  "(pid, tid) \<notin> membership_key ` set (project_tracks s) \<Longrightarrow>
     remove_track today pid tid s = (Inl NotFound_membership, s)"
  by (auto simp: remove_track_def Let_def filter_length_eq_iff membership_key_def)

lemma remove_track_present:
  "(pid, tid) \<in> membership_key ` set (project_tracks s) \<Longrightarrow>
     remove_track today pid tid s =
       (Inr (),
        s\<lparr>project_tracks := filter (\<lambda>r. membership_key r \<noteq> (pid, tid)) (project_tracks s),
          projects := update_project_modified today (projects s) pid\<rparr>)"
  by (auto simp: remove_track_def Let_def filter_length_eq_iff membership_key_def)

text \<open>
  C4. \<open>remove_track\<close> fails with \<open>NotFound_membership\<close> exactly when no row has the
  composite key, which is exactly when the filtered list is as long as the list read.
  It has no other failure, and a failure returns the store unchanged. On success the
  store has the filtered membership table and the projects table that
  \<open>update_project_modified\<close> writes, where the first row of the project, if there is
  one, is the old one with the date in \<open>modified_on\<close>.
\<close>

theorem remove_track_not_found_membership:
  "(fst (remove_track today pid tid s) = Inl NotFound_membership
      \<longleftrightarrow> (pid, tid) \<notin> membership_key ` set (project_tracks s))
   \<and> (fst (remove_track today pid tid s) = Inl NotFound_membership
      \<longleftrightarrow> length (filter (\<lambda>r. \<not> (pt_project_id r = pid \<and> pt_track_id r = tid))
                    (project_tracks s)) = length (project_tracks s))
   \<and> (\<forall>e s'. remove_track today pid tid s = (Inl e, s') \<longrightarrow>
         e = NotFound_membership \<and> s' = s)
   \<and> (\<forall>s'. remove_track today pid tid s = (Inr (), s') \<longrightarrow>
         s' = s\<lparr>project_tracks :=
                   filter (\<lambda>r. membership_key r \<noteq> (pid, tid)) (project_tracks s),
                 projects := update_project_modified today (projects s) pid\<rparr>
       \<and> find (\<lambda>r. project_id r = pid) (projects s') =
           map_option (\<lambda>r. r\<lparr>modified_on := today\<rparr>)
             (find (\<lambda>r. project_id r = pid) (projects s)))"
proof (cases "(pid, tid) \<in> membership_key ` set (project_tracks s)")
  case True
  then have "\<not> (\<forall>r \<in> set (project_tracks s). \<not> (pt_project_id r = pid \<and> pt_track_id r = tid))"
    by (auto simp: membership_key_def)
  then have "length (filter (\<lambda>r. \<not> (pt_project_id r = pid \<and> pt_track_id r = tid))
                    (project_tracks s)) \<noteq> length (project_tracks s)"
    using filter_length_eq_iff [of "\<lambda>r. \<not> (pt_project_id r = pid \<and> pt_track_id r = tid)"
        "project_tracks s"] by blast
  with True show ?thesis
    by (simp add: remove_track_present update_project_modified_find)
next
  case False
  then have "\<forall>r \<in> set (project_tracks s). \<not> (pt_project_id r = pid \<and> pt_track_id r = tid)"
    by (auto simp: membership_key_def)
  then have "length (filter (\<lambda>r. \<not> (pt_project_id r = pid \<and> pt_track_id r = tid))
                    (project_tracks s)) = length (project_tracks s)"
    using filter_length_eq_iff [of "\<lambda>r. \<not> (pt_project_id r = pid \<and> pt_track_id r = tid)"
        "project_tracks s"] by blast
  with False show ?thesis
    by (simp add: remove_track_absent)
qed

theorem remove_track_not_found_membership_witness:
  "fst (remove_track ''2025-03-03'' ''P001'' ''T1'' demo_store) = Inl NotFound_membership
   \<and> snd (remove_track ''2025-03-03'' ''P001'' ''T1'' demo_store_listed) =
       demo_store\<lparr>projects := [demo_project\<lparr>modified_on := ''2025-03-03''\<rparr>]\<rparr>"
proof -
  have absent: "(''P001'', ''T1'') \<notin> membership_key ` set (project_tracks demo_store)"
    by (simp add: demo_store_def)
  have present: "(''P001'', ''T1'') \<in> membership_key ` set (project_tracks demo_store_listed)"
    by (simp add: demo_store_listed_def demo_membership_def membership_key_def)
  note a = remove_track_not_found_membership [of "''2025-03-03''" "''P001''" "''T1''" demo_store]
  note b = remove_track_not_found_membership [of "''2025-03-03''" "''P001''" "''T1''" demo_store_listed]
  from a absent have 1: "fst (remove_track ''2025-03-03'' ''P001'' ''T1'' demo_store) = Inl NotFound_membership"
    by blast
  obtain out s2 where eq: "remove_track ''2025-03-03'' ''P001'' ''T1'' demo_store_listed = (out, s2)"
    by (cases "remove_track ''2025-03-03'' ''P001'' ''T1'' demo_store_listed")
  from b present eq have ne: "out \<noteq> Inl NotFound_membership"
    by simp
  have out: "out = Inr ()"
  proof (cases out)
    case (Inl e)
    with b eq have "e = NotFound_membership" by blast
    with Inl ne show ?thesis by simp
  next
    case (Inr u)
    then show ?thesis by simp
  qed
  with b eq have "snd (remove_track ''2025-03-03'' ''P001'' ''T1'' demo_store_listed) =
      demo_store_listed\<lparr>project_tracks :=
          filter (\<lambda>r. membership_key r \<noteq> (''P001'', ''T1'')) (project_tracks demo_store_listed),
        projects := update_project_modified ''2025-03-03'' (projects demo_store_listed) ''P001''\<rparr>"
    by simp
  then have "snd (remove_track ''2025-03-03'' ''P001'' ''T1'' demo_store_listed) =
       demo_store\<lparr>projects := [demo_project\<lparr>modified_on := ''2025-03-03''\<rparr>]\<rparr>"
    by (simp add: demo_store_listed_def demo_store_def demo_membership_def membership_key_def
          demo_project_def)
  with 1 show ?thesis by blast
qed

lemma key_count_distinct:
  "distinct (map membership_key rows) \<Longrightarrow> key_count rows pid tid \<le> 1"
proof (induction rows)
  case Nil
  then show ?case by (simp add: key_count_def)
next
  case (Cons r rows)
  show ?case
  proof (cases "membership_key r = (pid, tid)")
    case True
    with Cons.prems have "\<forall>x \<in> set rows. membership_key x \<noteq> (pid, tid)"
      by (metis distinct.simps(2) imageI list.simps(9) list.set_map)
    then have "filter (\<lambda>r. membership_key r = (pid, tid)) rows = []"
      by (simp add: filter_empty_conv)
    with True show ?thesis by (simp add: key_count_def)
  next
    case False
    with Cons show ?thesis by (simp add: key_count_def)
  qed
qed

lemma key_count_present:
  "(pid, tid) \<in> membership_key ` set rows \<Longrightarrow> 1 \<le> key_count rows pid tid"
proof -
  assume "(pid, tid) \<in> membership_key ` set rows"
  then have "filter (\<lambda>r. membership_key r = (pid, tid)) rows \<noteq> []"
    by (auto simp: filter_empty_conv)
  then show ?thesis
    unfolding key_count_def by (cases "filter (\<lambda>r. membership_key r = (pid, tid)) rows") simp_all
qed

lemma key_count_removed:
  "length (filter (\<lambda>r. membership_key r \<noteq> (pid, tid)) rows) + key_count rows pid tid =
     length rows"
  using sum_length_filter_compl [of "\<lambda>r. membership_key r = (pid, tid)" rows]
  by (simp add: key_count_def)

lemma key_count_one:
  assumes "key_count rows pid tid = 1"
  shows "\<exists>pre r post. rows = pre @ r # post \<and> membership_key r = (pid, tid)
           \<and> filter (\<lambda>r. membership_key r \<noteq> (pid, tid)) rows = pre @ post"
proof -
  from assms obtain r where "filter (\<lambda>r. membership_key r = (pid, tid)) rows = [r]"
    unfolding key_count_def
    by (cases "filter (\<lambda>r. membership_key r = (pid, tid)) rows") auto
  then obtain pre post where rows: "rows = pre @ r # post"
    and pre: "\<forall>u \<in> set pre. membership_key u \<noteq> (pid, tid)"
    and r: "membership_key r = (pid, tid)"
    and post: "[] = filter (\<lambda>r. membership_key r = (pid, tid)) post"
    unfolding filter_eq_Cons_iff by blast
  from post have "filter (\<lambda>r. membership_key r = (pid, tid)) post = []"
    by simp
  then have post': "\<forall>u \<in> set post. membership_key u \<noteq> (pid, tid)"
    by (simp only: filter_empty_conv)
  from pre post' r have "filter (\<lambda>r. membership_key r \<noteq> (pid, tid)) rows = pre @ post"
    by (simp add: rows filter_id_conv)
  with rows r show ?thesis by blast
qed

text \<open>
  C5, as stated, fails on a table that has the composite key twice: both rows go.
\<close>

theorem remove_track_removes_one_row_counterexample:
  "remove_track ''2025-03-03'' ''P001'' ''T1'' demo_store_dup =
     (Inr (), demo_store\<lparr>project_tracks := [demo_membership_2],
                projects := [demo_project\<lparr>modified_on := ''2025-03-03''\<rparr>]\<rparr>)
   \<and> length (project_tracks demo_store_dup) = 3
   \<and> length (project_tracks (snd (remove_track ''2025-03-03'' ''P001'' ''T1'' demo_store_dup)))
       + 1 \<noteq> length (project_tracks demo_store_dup)"
  by (simp add: remove_track_def demo_store_dup_def demo_store_def demo_membership_def
        demo_membership_2_def demo_project_def)

text \<open>
  C5, amended. A successful \<open>remove_track\<close> writes the table it read without the rows
  of the composite key: as many rows go as have the key, at least one, and the other
  rows are the same rows in the same order, each with the position it had, nothing
  renumbered. When one row has the key, which is so in a table with the key unique,
  that is the one row removed: the table read is \<open>pre @ r # post\<close> with \<open>r\<close> of the key,
  and the table written is \<open>pre @ post\<close>.
\<close>

theorem remove_track_removes_one_row:
  assumes "remove_track today pid tid s = (Inr (), s')"
  shows "project_tracks s' =
           filter (\<lambda>r. membership_key r \<noteq> (pid, tid)) (project_tracks s)
       \<and> length (project_tracks s') + key_count (project_tracks s) pid tid =
           length (project_tracks s)
       \<and> 1 \<le> key_count (project_tracks s) pid tid
       \<and> (distinct (map membership_key (project_tracks s)) \<longrightarrow>
             key_count (project_tracks s) pid tid = 1)
       \<and> (key_count (project_tracks s) pid tid = 1 \<longrightarrow>
            (\<exists>pre r post.
               project_tracks s = pre @ r # post
             \<and> membership_key r = (pid, tid)
             \<and> project_tracks s' = pre @ post
             \<and> map position (project_tracks s') = map position pre @ map position post
             \<and> length (project_tracks s') + 1 = length (project_tracks s)))"
proof -
  have key: "(pid, tid) \<in> membership_key ` set (project_tracks s)"
    using assms remove_track_absent [of pid tid s today] by auto
  from assms remove_track_present [OF key, of today]
  have written: "project_tracks s' =
      filter (\<lambda>r. membership_key r \<noteq> (pid, tid)) (project_tracks s)"
    by auto
  have count: "length (project_tracks s') + key_count (project_tracks s) pid tid =
      length (project_tracks s)"
    unfolding written by (rule key_count_removed)
  have least: "1 \<le> key_count (project_tracks s) pid tid"
    using key by (rule key_count_present)
  have unique: "key_count (project_tracks s) pid tid = 1"
    if "distinct (map membership_key (project_tracks s))"
    using key_count_distinct [OF that, of pid tid] least by simp
  have one: "\<exists>pre r post.
               project_tracks s = pre @ r # post
             \<and> membership_key r = (pid, tid)
             \<and> project_tracks s' = pre @ post
             \<and> map position (project_tracks s') = map position pre @ map position post
             \<and> length (project_tracks s') + 1 = length (project_tracks s)"
    if "key_count (project_tracks s) pid tid = 1"
  proof -
    from key_count_one [OF that] obtain pre r post where
      "project_tracks s = pre @ r # post" "membership_key r = (pid, tid)"
      "filter (\<lambda>r. membership_key r \<noteq> (pid, tid)) (project_tracks s) = pre @ post"
      by blast
    with written show ?thesis by auto
  qed
  from written count least unique one show ?thesis by blast
qed

lemma demo_remove_middle:
  "remove_track ''2025-03-08'' ''P001'' ''T2'' demo_store_three =
     (Inr (), demo_store\<lparr>project_tracks := [demo_membership, demo_membership_3],
                projects := [demo_project\<lparr>modified_on := ''2025-03-08''\<rparr>]\<rparr>)"
  by (simp add: remove_track_def demo_store_three_def demo_store_def demo_membership_def
        demo_membership_2_def demo_membership_3_def demo_project_def)

theorem remove_track_removes_one_row_witness:
  "remove_track ''2025-03-08'' ''P001'' ''T2'' demo_store_three =
     (Inr (), demo_store\<lparr>project_tracks := [demo_membership, demo_membership_3],
                projects := [demo_project\<lparr>modified_on := ''2025-03-08''\<rparr>]\<rparr>)
   \<and> key_count (project_tracks demo_store_three) ''P001'' ''T2'' = 1
   \<and> map position (project_tracks demo_store_three) = [''1'', ''2'', ''3'']
   \<and> map position
        (project_tracks
          (demo_store\<lparr>project_tracks := [demo_membership, demo_membership_3],
             projects := [demo_project\<lparr>modified_on := ''2025-03-08''\<rparr>]\<rparr>)) = [''1'', ''3'']
   \<and> (\<exists>pre r post.
         project_tracks demo_store_three = pre @ r # post
       \<and> membership_key r = (''P001'', ''T2'')
       \<and> [demo_membership, demo_membership_3] = pre @ post)"
proof -
  have d: "distinct (map membership_key (project_tracks demo_store_three))"
    by (simp add: demo_store_three_def demo_membership_def demo_membership_2_def
          demo_membership_3_def membership_key_def)
  note res = remove_track_removes_one_row [OF demo_remove_middle]
  from res d have one: "key_count (project_tracks demo_store_three) ''P001'' ''T2'' = 1"
    by blast
  with res have "\<exists>pre r post.
         project_tracks demo_store_three = pre @ r # post
       \<and> membership_key r = (''P001'', ''T2'')
       \<and> project_tracks
            (demo_store\<lparr>project_tracks := [demo_membership, demo_membership_3],
               projects := [demo_project\<lparr>modified_on := ''2025-03-08''\<rparr>]\<rparr>) = pre @ post"
    by blast
  then have "\<exists>pre r post.
         project_tracks demo_store_three = pre @ r # post
       \<and> membership_key r = (''P001'', ''T2'')
       \<and> [demo_membership, demo_membership_3] = pre @ post"
    by simp
  moreover have "map position (project_tracks demo_store_three) = [''1'', ''2'', ''3'']"
    by (simp add: demo_store_three_def demo_membership_def demo_membership_2_def
          demo_membership_3_def)
  moreover have "map position
        (project_tracks
          (demo_store\<lparr>project_tracks := [demo_membership, demo_membership_3],
             projects := [demo_project\<lparr>modified_on := ''2025-03-08''\<rparr>]\<rparr>)) = [''1'', ''3'']"
    by (simp add: demo_membership_def demo_membership_3_def)
  ultimately show ?thesis
    using demo_remove_middle one by blast
qed

text \<open>
  C10, as stated, fails on a store with a membership of a project that the projects
  table lacks: the call for that project and track succeeds and the row goes.
\<close>

theorem remove_track_unknown_project_counterexample:
  "''P009'' \<notin> project_id ` set (projects demo_store_orphan)
   \<and> remove_track ''2025-03-03'' ''P009'' ''T1'' demo_store_orphan =
       (Inr (), demo_store\<lparr>project_tracks := [demo_membership], projects := [demo_project]\<rparr>)
   \<and> remove_track ''2025-03-03'' ''P009'' ''T1'' demo_store_orphan \<noteq>
       (Inl NotFound_membership, demo_store_orphan)"
  by (simp add: remove_track_def demo_store_orphan_def demo_store_def demo_membership_def
        demo_project_def)

text \<open>
  C10, amended. \<open>remove_track\<close> does not look at the projects table before it filters:
  it never fails with \<open>NotFound_project\<close>, and whenever it fails it fails with
  \<open>NotFound_membership\<close>, the store unchanged. For a project that is not in the
  projects table it fails so exactly when no membership row has the key; that is so
  for every track when every membership row is of a project of the projects table, as
  it is in every store the writers reach from one that is so. When a row has the key
  the call succeeds: the rows of the key go and the projects table stays as it was.
\<close>

theorem remove_track_unknown_project:
  "fst (remove_track today pid tid s) \<noteq> Inl NotFound_project
   \<and> (\<forall>e s'. remove_track today pid tid s = (Inl e, s') \<longrightarrow>
         e = NotFound_membership \<and> s' = s)
   \<and> (pid \<notin> project_id ` set (projects s) \<and> referential s \<longrightarrow>
        remove_track today pid tid s = (Inl NotFound_membership, s))
   \<and> (pid \<notin> project_id ` set (projects s) \<longrightarrow>
        (remove_track today pid tid s = (Inl NotFound_membership, s)
           \<longleftrightarrow> (pid, tid) \<notin> membership_key ` set (project_tracks s)))
   \<and> (pid \<notin> project_id ` set (projects s)
        \<and> (pid, tid) \<in> membership_key ` set (project_tracks s) \<longrightarrow>
        remove_track today pid tid s =
          (Inr (),
           s\<lparr>project_tracks :=
               filter (\<lambda>r. membership_key r \<noteq> (pid, tid)) (project_tracks s),
             projects := projects s\<rparr>))"
proof -
  have "(pid, tid) \<notin> membership_key ` set (project_tracks s)"
    if "pid \<notin> project_id ` set (projects s)" "referential s"
    using that by (auto simp: referential_def list_all_iff membership_key_def)
  then show ?thesis
    by (cases "(pid, tid) \<in> membership_key ` set (project_tracks s)")
       (auto simp: remove_track_absent remove_track_present update_project_modified_absent)
qed

theorem remove_track_unknown_project_witness:
  "''P999'' \<notin> project_id ` set (projects demo_store_listed) \<and> referential demo_store_listed
   \<and> remove_track ''2025-03-03'' ''P999'' ''T1'' demo_store_listed
       = (Inl NotFound_membership, demo_store_listed)"
proof -
  have 1: "''P999'' \<notin> project_id ` set (projects demo_store_listed)"
    by (simp add: demo_store_listed_def demo_store_def demo_project_def)
  have 2: "referential demo_store_listed"
    by (simp add: referential_def demo_store_listed_def demo_store_def demo_project_def
          demo_membership_def)
  from remove_track_unknown_project [of "''2025-03-03''" "''P999''" "''T1''" demo_store_listed] 1 2
  show ?thesis by blast
qed

subsection \<open>Positions\<close>

lemma project_rows_Cons:
  "project_rows (r # rows) pid =
     (if pt_project_id r = pid then r # project_rows rows pid else project_rows rows pid)"
  by (simp add: project_rows_def)

lemma project_rows_append:
  "project_rows (rows @ rows') pid = project_rows rows pid @ project_rows rows' pid"
  by (simp add: project_rows_def)

lemma numeric_positions_Cons:
  "numeric_positions (r # rows) pid \<longleftrightarrow>
     (pt_project_id r = pid \<longrightarrow> (\<exists>p. py_int (position r) = Some p))
     \<and> numeric_positions rows pid"
  by (auto simp: numeric_positions_def project_rows_Cons)

lemma position_numbers_Cons:
  "position_numbers (r # rows) pid =
     (if pt_project_id r = pid
      then (case py_int (position r) of None \<Rightarrow> position_numbers rows pid
            | Some p \<Rightarrow> p # position_numbers rows pid)
      else position_numbers rows pid)"
  by (auto simp: position_numbers_def project_rows_Cons List.map_filter_simps split: option.splits)

lemma max_position_fold:
  "numeric_positions rows pid \<Longrightarrow>
     max_position m rows pid = Inr (fold max (position_numbers rows pid) m)"
proof (induction rows arbitrary: m)
  case Nil
  then show ?case by (simp add: position_numbers_def project_rows_def List.map_filter_simps)
next
  case (Cons r rows)
  then show ?case
    by (auto simp: numeric_positions_Cons position_numbers_Cons max.commute)
qed

lemma max_position_numeric:
  "numeric_positions rows pid \<Longrightarrow> max_position 0 rows pid = Inr (previous_max rows pid)"
  by (simp add: max_position_fold fold_max_Max previous_max_def del: set_simps)

lemma max_position_not_numeric:
  "\<not> numeric_positions rows pid \<Longrightarrow> max_position m rows pid = Inl ValueError"
proof (induction rows arbitrary: m)
  case Nil
  then show ?case by (simp add: numeric_positions_def project_rows_def)
next
  case (Cons r rows)
  then show ?case
    by (auto simp: numeric_positions_Cons split: option.splits)
qed

lemma previous_max_nonneg: "0 \<le> previous_max rows pid"
  by (simp add: previous_max_def)

lemma previous_max_upper:
  assumes "r \<in> set rows" "pt_project_id r = pid" "py_int (position r) = Some p"
  shows "p \<le> previous_max rows pid"
proof -
  from assms have "r \<in> set (project_rows rows pid)"
    by (simp add: project_rows_def)
  with assms(3) have "p \<in> set (position_numbers rows pid)"
    by (force simp: position_numbers_def List.map_filter_def)
  then show ?thesis by (simp add: previous_max_def)
qed

lemma previous_max_empty: "project_rows rows pid = [] \<Longrightarrow> previous_max rows pid = 0"
  by (simp add: previous_max_def position_numbers_def List.map_filter_simps)

lemma previous_max_Max:
  assumes "p \<in> set (position_numbers rows pid)" "0 \<le> p"
  shows "previous_max rows pid = Max (set (position_numbers rows pid))"
proof -
  let ?S = "set (position_numbers rows pid)"
  from assms(1) have ne: "?S \<noteq> {}" by auto
  from assms have "0 \<le> Max ?S"
    by (meson List.finite_set Max_ge order_trans)
  with ne show ?thesis by (simp add: previous_max_def max_def)
qed

lemma get_next_position_numeric:
  "numeric_positions rows pid \<Longrightarrow>
     get_next_position rows pid = Inr (previous_max rows pid + 1)"
  by (simp add: get_next_position_def max_position_numeric)

lemma get_next_position_not_numeric:
  "\<not> numeric_positions rows pid \<Longrightarrow> get_next_position rows pid = Inl ValueError"
  by (simp add: get_next_position_def max_position_not_numeric)

subsection \<open>Listings\<close>

lemma get_track_title_eq: "get_track_title cat tid = title_of cat tid"
  by (induction cat) (simp_all add: title_of_def)

lemma collect_tracks_numeric:
  "numeric_positions rows pid \<Longrightarrow>
     collect_tracks cat rows pid = Inr (List.map_filter (listed cat) (project_rows rows pid))"
proof (induction rows)
  case Nil
  then show ?case by (simp add: project_rows_def List.map_filter_simps)
next
  case (Cons r rows)
  then show ?case
    by (auto simp: numeric_positions_Cons project_rows_Cons List.map_filter_simps listed_def
          get_track_title_eq)
qed

lemma collect_tracks_error:
  "collect_tracks cat rows pid = Inl e \<Longrightarrow> e = ValueError"
  by (induction rows) (auto split: if_splits option.splits sum.splits)

lemma collect_tracks_not_numeric:
  "\<not> numeric_positions rows pid \<Longrightarrow> collect_tracks cat rows pid = Inl ValueError"
proof (induction rows)
  case Nil
  then show ?case by (simp add: numeric_positions_def project_rows_def)
next
  case (Cons r rows)
  then show ?case
    by (auto simp: numeric_positions_Cons split: option.splits sum.splits
          dest: collect_tracks_error)
qed

lemma list_tracks_numeric:
  "pid \<in> project_id ` set (projects s) \<Longrightarrow> numeric_positions (project_tracks s) pid \<Longrightarrow>
     list_tracks s pid = Inr (sort_key lt_position (entries s pid))"
  by (simp add: list_tracks_def validate_project_exists_iff collect_tracks_numeric entries_def)

lemma list_tracks_not_numeric:
  "pid \<in> project_id ` set (projects s) \<Longrightarrow> \<not> numeric_positions (project_tracks s) pid \<Longrightarrow>
     list_tracks s pid = Inl ValueError"
  by (simp add: list_tracks_def validate_project_exists_iff collect_tracks_not_numeric)

lemma map_filter_length:
  "list_all (\<lambda>x. f x \<noteq> None) xs \<Longrightarrow> length (List.map_filter f xs) = length xs"
  by (induction xs) (auto simp: List.map_filter_simps)

lemma entries_length:
  assumes "numeric_positions (project_tracks s) pid"
  shows "length (entries s pid) = length (project_rows (project_tracks s) pid)"
proof -
  from assms have "list_all (\<lambda>r. listed (tracks s) r \<noteq> None) (project_rows (project_tracks s) pid)"
    by (auto simp: numeric_positions_def list_all_iff listed_def)
  then show ?thesis
    unfolding entries_def by (rule map_filter_length)
qed

lemma entries_title:
  "t \<in> set (entries s pid) \<Longrightarrow> lt_title t = title_of (tracks s) (lt_track_id t)"
  by (auto simp: entries_def List.map_filter_def listed_def)

text \<open>
  C6, as stated, fails on a project with a position that is no integer: the project
  exists, and \<open>list_tracks\<close> raises \<open>ValueError\<close> where the claim has it return the rows.
\<close>

theorem list_tracks_sorted_listing_counterexample:
  "''P001'' \<in> project_id ` set (projects demo_store_fraction)
   \<and> map position (project_rows (project_tracks demo_store_fraction) ''P001'') = [''1.5'']
   \<and> list_tracks demo_store_fraction ''P001'' = Inl ValueError"
  by code_simp

text \<open>
  C6, amended. \<open>list_tracks\<close> fails with \<open>NotFound_project\<close> exactly when the project is
  not in the projects table. For a project of the table whose rows all have a position
  that \<open>int()\<close> reads, negative ones included, it returns the entries of the rows of
  the project, one for each row and no others, sorted by position, ascending and
  stable; the title of an entry is the catalog's title of the track, \<open>Unknown\<close> when
  the catalog has no such track. For a project of the table without rows it returns
  the empty list. For a project of the table with a position that \<open>int()\<close> does not
  read it fails with \<open>ValueError\<close>.
\<close>

theorem list_tracks_sorted_listing:
  "(list_tracks s pid = Inl NotFound_project \<longleftrightarrow> pid \<notin> project_id ` set (projects s))
   \<and> (pid \<in> project_id ` set (projects s) \<and> numeric_positions (project_tracks s) pid \<longrightarrow>
        (\<exists>ts. list_tracks s pid = Inr ts
            \<and> ts = sort_key lt_position (entries s pid)
            \<and> sorted (map lt_position ts)
            \<and> mset ts = mset (entries s pid)
            \<and> length ts = length (project_rows (project_tracks s) pid)
            \<and> (\<forall>t \<in> set ts.
                  lt_title t =
                    (case find (\<lambda>c. track_id c = lt_track_id t) (tracks s) of
                       None \<Rightarrow> ''Unknown''
                     | Some c \<Rightarrow> track_title c))))
   \<and> (pid \<in> project_id ` set (projects s) \<and> project_rows (project_tracks s) pid = [] \<longrightarrow>
        list_tracks s pid = Inr [])
   \<and> (pid \<in> project_id ` set (projects s) \<and> \<not> numeric_positions (project_tracks s) pid \<longrightarrow>
        list_tracks s pid = Inl ValueError)"
proof (intro conjI impI)
  show "list_tracks s pid = Inl NotFound_project \<longleftrightarrow> pid \<notin> project_id ` set (projects s)"
    by (auto simp: list_tracks_def validate_project_exists_iff split: sum.splits
          dest: collect_tracks_error)
next
  assume a: "pid \<in> project_id ` set (projects s) \<and> numeric_positions (project_tracks s) pid"
  let ?ts = "sort_key lt_position (entries s pid)"
  have "list_tracks s pid = Inr ?ts"
    using a by (simp add: list_tracks_numeric)
  moreover have "sorted (map lt_position ?ts)"
    by (rule sorted_sort_key)
  moreover have "mset ?ts = mset (entries s pid)"
    by simp
  moreover have "length ?ts = length (project_rows (project_tracks s) pid)"
    using a by (simp add: entries_length)
  moreover have "\<forall>t \<in> set ?ts.
      lt_title t = (case find (\<lambda>c. track_id c = lt_track_id t) (tracks s) of
                      None \<Rightarrow> ''Unknown'' | Some c \<Rightarrow> track_title c)"
    using entries_title [of _ s pid] by (simp add: title_of_def)
  ultimately show "\<exists>ts. list_tracks s pid = Inr ts
            \<and> ts = sort_key lt_position (entries s pid)
            \<and> sorted (map lt_position ts)
            \<and> mset ts = mset (entries s pid)
            \<and> length ts = length (project_rows (project_tracks s) pid)
            \<and> (\<forall>t \<in> set ts.
                  lt_title t =
                    (case find (\<lambda>c. track_id c = lt_track_id t) (tracks s) of
                       None \<Rightarrow> ''Unknown''
                     | Some c \<Rightarrow> track_title c))"
    by blast
next
  assume a: "pid \<in> project_id ` set (projects s) \<and> project_rows (project_tracks s) pid = []"
  then have "numeric_positions (project_tracks s) pid"
    by (simp add: numeric_positions_def)
  with a show "list_tracks s pid = Inr []"
    by (simp add: list_tracks_numeric entries_def List.map_filter_simps)
next
  assume "pid \<in> project_id ` set (projects s) \<and> \<not> numeric_positions (project_tracks s) pid"
  then show "list_tracks s pid = Inl ValueError"
    by (simp add: list_tracks_not_numeric)
qed

lemma demo_store_two_listing:
  "sort_key lt_position (entries demo_store_two ''P001'') =
     [\<lparr>lt_position = 1, lt_track_id = ''T1'', lt_title = ''Good Rockin'',
       lt_added_date = ''2025-03-01'', lt_notes = ''''\<rparr>,
      \<lparr>lt_position = 2, lt_track_id = ''T2'', lt_title = ''Unknown'',
       lt_added_date = ''2025-03-05'', lt_notes = ''intro''\<rparr>]"
  by code_simp

lemma demo_store_two_numeric: "numeric_positions (project_tracks demo_store_two) ''P001''"
  by code_simp

lemma demo_store_fraction_not_numeric:
  "\<not> numeric_positions (project_tracks demo_store_fraction) ''P001''"
  by code_simp

theorem list_tracks_sorted_listing_witness:
  "list_tracks demo_store_two ''P001'' =
     Inr [\<lparr>lt_position = 1, lt_track_id = ''T1'', lt_title = ''Good Rockin'',
            lt_added_date = ''2025-03-01'', lt_notes = ''''\<rparr>,
          \<lparr>lt_position = 2, lt_track_id = ''T2'', lt_title = ''Unknown'',
            lt_added_date = ''2025-03-05'', lt_notes = ''intro''\<rparr>]
   \<and> list_tracks demo_store ''P001'' = Inr []
   \<and> list_tracks demo_store ''P999'' = Inl NotFound_project
   \<and> list_tracks demo_store_fraction ''P001'' = Inl ValueError"
proof -
  have in2: "''P001'' \<in> project_id ` set (projects demo_store_two)"
    by (simp add: demo_store_two_def demo_store_def demo_project_def)
  have in1: "''P001'' \<in> project_id ` set (projects demo_store)"
    by (simp add: demo_store_def demo_project_def)
  have in3: "''P001'' \<in> project_id ` set (projects demo_store_fraction)"
    by (simp add: demo_store_fraction_def demo_store_def demo_project_def)
  have none: "project_rows (project_tracks demo_store) ''P001'' = []"
    by (simp add: demo_store_def project_rows_def)
  have out: "''P999'' \<notin> project_id ` set (projects demo_store)"
    by (simp add: demo_store_def demo_project_def)
  from list_tracks_sorted_listing [of demo_store_two "''P001''"] in2 demo_store_two_numeric
  have "list_tracks demo_store_two ''P001'' =
          Inr (sort_key lt_position (entries demo_store_two ''P001''))"
    by blast
  moreover from list_tracks_sorted_listing [of demo_store "''P001''"] in1 none
  have "list_tracks demo_store ''P001'' = Inr []"
    by blast
  moreover from list_tracks_sorted_listing [of demo_store "''P999''"] out
  have "list_tracks demo_store ''P999'' = Inl NotFound_project"
    by blast
  moreover from list_tracks_sorted_listing [of demo_store_fraction "''P001''"] in3
    demo_store_fraction_not_numeric
  have "list_tracks demo_store_fraction ''P001'' = Inl ValueError"
    by blast
  ultimately show ?thesis
    by (simp only: demo_store_two_listing)
qed

subsection \<open>\<open>add_track\<close>: the new row\<close>

lemma insort_key_snoc:
  "f x \<le> f y \<Longrightarrow> insort_key f x (zs @ [y]) = insort_key f x zs @ [y]"
  by (induction zs) auto

lemma sort_key_snoc:
  "\<forall>x \<in> set xs. f x \<le> f y \<Longrightarrow> sort_key f (xs @ [y]) = sort_key f xs @ [y]"
  by (induction xs) (auto simp: insort_key_snoc)

lemma entries_position_upper:
  assumes "t \<in> set (entries s pid)"
  shows "lt_position t \<le> previous_max (project_tracks s) pid"
proof -
  from assms obtain r where r: "r \<in> set (project_rows (project_tracks s) pid)"
    "listed (tracks s) r = Some t"
    by (auto simp: entries_def List.map_filter_def)
  then have "py_int (position r) = Some (lt_position t)"
    by (auto simp: listed_def)
  moreover from r(1) have "r \<in> set (project_tracks s)" "pt_project_id r = pid"
    by (simp_all add: project_rows_def)
  ultimately show ?thesis by (simp add: previous_max_upper)
qed

lemma map_filter_append:
  "List.map_filter f (xs @ ys) = List.map_filter f xs @ List.map_filter f ys"
  by (simp add: List.map_filter_def)

lemma add_track_success:
  assumes "pid \<in> project_id ` set (projects s)"
      and "tid \<in> track_id ` set (tracks s)"
      and "(pid, tid) \<notin> membership_key ` set (project_tracks s)"
      and "numeric_positions (project_tracks s) pid"
      and "str_digits_ok (previous_max (project_tracks s) pid + 1)"
  shows "add_track today today' pid tid n s =
           (Inr (),
            s\<lparr>project_tracks := project_tracks s @
                 [\<lparr>pt_project_id = pid, pt_track_id = tid, added_date = today,
                   position = py_str_text (previous_max (project_tracks s) pid + 1),
                   notes_col = universal_newlines n\<rparr>],
              projects := update_project_modified today' (projects s) pid\<rparr>)"
  using assms
  by (simp add: add_track_def validate_project_exists_iff validate_track_exists_iff
        track_in_project_iff get_next_position_numeric py_str_def)

lemma add_track_value_error:
  assumes "pid \<in> project_id ` set (projects s)"
      and "tid \<in> track_id ` set (tracks s)"
      and "(pid, tid) \<notin> membership_key ` set (project_tracks s)"
      and "\<not> numeric_positions (project_tracks s) pid
           \<or> \<not> str_digits_ok (previous_max (project_tracks s) pid + 1)"
  shows "add_track today today' pid tid n s = (Inl ValueError, s)"
proof (cases "numeric_positions (project_tracks s) pid")
  case True
  with assms show ?thesis
    by (simp add: add_track_def validate_project_exists_iff validate_track_exists_iff
          track_in_project_iff get_next_position_numeric py_str_def)
next
  case False
  with assms show ?thesis
    by (simp add: add_track_def validate_project_exists_iff validate_track_exists_iff
          track_in_project_iff get_next_position_not_numeric)
qed

text \<open>
  C3, as stated, fails on a project with a negative position, where the new row is at
  1 and not at one more than the maximum, and on a project with a position that is no
  integer, where the call passes the three checks, raises \<open>ValueError\<close> and appends
  nothing.
\<close>

theorem add_track_appends_at_next_position_counterexample:
  "position_numbers (project_tracks demo_store_negative) ''P001'' = [- 3]
   \<and> map position
        (project_tracks
          (snd (add_track ''2025-03-09'' ''2025-03-09'' ''P001'' ''T1'' '''' demo_store_negative)))
       = [''-3'', ''1'']
   \<and> ''P001'' \<in> project_id ` set (projects demo_store_fraction)
   \<and> ''T1'' \<in> track_id ` set (tracks demo_store_fraction)
   \<and> (''P001'', ''T1'') \<notin> membership_key ` set (project_tracks demo_store_fraction)
   \<and> add_track ''2025-03-09'' ''2025-03-09'' ''P001'' ''T1'' '''' demo_store_fraction
       = (Inl ValueError, demo_store_fraction)"
  by code_simp

text \<open>
  C3, amended. Let the project and the track exist and the pair be no membership yet.
  When every position of the project is a number that \<open>int()\<close> reads and the next
  number is within the interpreter's limit, \<open>add_track\<close> succeeds. The membership table
  it writes is the one it read followed by one row, which has the date read for it,
  the notes as they are read back, and as position the decimal text of one more than
  the maximum of 0 and the positions of the project: one more than the maximum
  position when a position is not negative, \<open>1\<close> for a project without rows. The
  projects table it writes is the one \<open>update_project_modified\<close> gives, where the first
  row of the project has the date read there in \<open>modified_on\<close>. A listing of the project
  taken afterwards is the listing taken before followed by the entry of the new row at
  that position. Otherwise \<open>add_track\<close> fails with \<open>ValueError\<close> and the store is the
  one it was called on.
\<close>

theorem add_track_appends_at_next_position:
  assumes "pid \<in> project_id ` set (projects s)"
      and "tid \<in> track_id ` set (tracks s)"
      and "(pid, tid) \<notin> membership_key ` set (project_tracks s)"
  shows "(numeric_positions (project_tracks s) pid
            \<and> str_digits_ok (previous_max (project_tracks s) pid + 1) \<longrightarrow>
          (\<exists>s' text new_row entry ts r.
             add_track today today' pid tid n s = (Inr (), s')
           \<and> py_str (previous_max (project_tracks s) pid + 1) = Some text
           \<and> py_int text = Some (previous_max (project_tracks s) pid + 1)
           \<and> new_row = \<lparr>pt_project_id = pid, pt_track_id = tid, added_date = today,
                         position = text, notes_col = universal_newlines n\<rparr>
           \<and> project_tracks s' = project_tracks s @ [new_row]
           \<and> projects s' = update_project_modified today' (projects s) pid
           \<and> find (\<lambda>r. project_id r = pid) (projects s) = Some r
           \<and> find (\<lambda>r. project_id r = pid) (projects s') = Some (r\<lparr>modified_on := today'\<rparr>)
           \<and> tracks s' = tracks s
           \<and> entry = \<lparr>lt_position = previous_max (project_tracks s) pid + 1,
                       lt_track_id = tid, lt_title = title_of (tracks s) tid,
                       lt_added_date = today, lt_notes = universal_newlines n\<rparr>
           \<and> list_tracks s pid = Inr ts
           \<and> list_tracks s' pid = Inr (ts @ [entry])))
       \<and> previous_max (project_tracks s) pid =
           Max (set (0 # position_numbers (project_tracks s) pid))
       \<and> ((\<exists>p \<in> set (position_numbers (project_tracks s) pid). 0 \<le> p) \<longrightarrow>
            previous_max (project_tracks s) pid =
              Max (set (position_numbers (project_tracks s) pid)))
       \<and> (project_rows (project_tracks s) pid = [] \<longrightarrow>
            previous_max (project_tracks s) pid = 0 \<and> py_str 1 = Some ''1'')
       \<and> (\<not> numeric_positions (project_tracks s) pid
            \<or> \<not> str_digits_ok (previous_max (project_tracks s) pid + 1) \<longrightarrow>
          add_track today today' pid tid n s = (Inl ValueError, s))"
proof (intro conjI impI)
  assume ok: "numeric_positions (project_tracks s) pid
            \<and> str_digits_ok (previous_max (project_tracks s) pid + 1)"
  let ?m = "previous_max (project_tracks s) pid + 1"
  let ?text = "py_str_text ?m"
  let ?row = "\<lparr>pt_project_id = pid, pt_track_id = tid, added_date = today,
               position = ?text, notes_col = universal_newlines n\<rparr>"
  let ?entry = "\<lparr>lt_position = ?m, lt_track_id = tid, lt_title = title_of (tracks s) tid,
                 lt_added_date = today, lt_notes = universal_newlines n\<rparr>"
  let ?s' = "s\<lparr>project_tracks := project_tracks s @ [?row],
               projects := update_project_modified today' (projects s) pid\<rparr>"
  let ?ts = "sort_key lt_position (entries s pid)"
  have m: "0 \<le> ?m"
    using previous_max_nonneg [of "project_tracks s" pid] by simp
  have conv: "py_str ?m = Some ?text"
    using ok by (simp add: py_str_def)
  have parse: "py_int ?text = Some ?m"
    using m ok by (simp add: py_int_py_str_text)
  from assms(1) obtain r where r: "find (\<lambda>r. project_id r = pid) (projects s) = Some r"
    by (cases "find (\<lambda>r. project_id r = pid) (projects s)") (auto simp: find_None_iff)
  have r': "find (\<lambda>r. project_id r = pid) (projects ?s') = Some (r\<lparr>modified_on := today'\<rparr>)"
    by (simp add: update_project_modified_find r)
  have before: "list_tracks s pid = Inr ?ts"
    using assms(1) ok by (simp add: list_tracks_numeric)
  have rows': "project_rows (project_tracks s @ [?row]) pid =
      project_rows (project_tracks s) pid @ [?row]"
    by (simp add: project_rows_append) (simp add: project_rows_def)
  have numeric': "numeric_positions (project_tracks ?s') pid"
    using ok parse by (simp add: numeric_positions_def rows')
  have exists': "pid \<in> project_id ` set (projects ?s')"
    using assms(1) by (simp add: update_project_modified_ids)
  have "listed (tracks s) ?row = Some ?entry"
    using parse by (simp add: listed_def)
  then have entries': "entries ?s' pid = entries s pid @ [?entry]"
    by (simp add: entries_def rows' map_filter_append List.map_filter_simps)
  have "\<forall>t \<in> set (entries s pid). lt_position t \<le> lt_position ?entry"
    using entries_position_upper [of _ s pid] by fastforce
  then have "sort_key lt_position (entries ?s' pid) = ?ts @ [?entry]"
    unfolding entries' by (rule sort_key_snoc)
  with list_tracks_numeric [OF exists' numeric']
  have after: "list_tracks ?s' pid = Inr (?ts @ [?entry])"
    by simp
  have "add_track today today' pid tid n s = (Inr (), ?s')"
    using assms ok by (simp add: add_track_success)
  with conv parse r r' before after
  show "\<exists>s' text new_row entry ts r.
             add_track today today' pid tid n s = (Inr (), s')
           \<and> py_str (previous_max (project_tracks s) pid + 1) = Some text
           \<and> py_int text = Some (previous_max (project_tracks s) pid + 1)
           \<and> new_row = \<lparr>pt_project_id = pid, pt_track_id = tid, added_date = today,
                         position = text, notes_col = universal_newlines n\<rparr>
           \<and> project_tracks s' = project_tracks s @ [new_row]
           \<and> projects s' = update_project_modified today' (projects s) pid
           \<and> find (\<lambda>r. project_id r = pid) (projects s) = Some r
           \<and> find (\<lambda>r. project_id r = pid) (projects s') = Some (r\<lparr>modified_on := today'\<rparr>)
           \<and> tracks s' = tracks s
           \<and> entry = \<lparr>lt_position = previous_max (project_tracks s) pid + 1,
                       lt_track_id = tid, lt_title = title_of (tracks s) tid,
                       lt_added_date = today, lt_notes = universal_newlines n\<rparr>
           \<and> list_tracks s pid = Inr ts
           \<and> list_tracks s' pid = Inr (ts @ [entry])"
    by (intro exI [of _ ?s'] exI [of _ ?text] exI [of _ ?row] exI [of _ ?entry]
          exI [of _ ?ts] exI [of _ r]) simp
next
  show "previous_max (project_tracks s) pid =
      Max (set (0 # position_numbers (project_tracks s) pid))"
    by (simp only: previous_max_def)
next
  assume "\<exists>p \<in> set (position_numbers (project_tracks s) pid). 0 \<le> p"
  then show "previous_max (project_tracks s) pid =
      Max (set (position_numbers (project_tracks s) pid))"
    using previous_max_Max by blast
next
  assume "project_rows (project_tracks s) pid = []"
  then show "previous_max (project_tracks s) pid = 0"
    by (rule previous_max_empty)
next
  show "py_str 1 = Some ''1''" by (rule py_str_1)
next
  assume "\<not> numeric_positions (project_tracks s) pid
            \<or> \<not> str_digits_ok (previous_max (project_tracks s) pid + 1)"
  with assms show "add_track today today' pid tid n s = (Inl ValueError, s)"
    by (rule add_track_value_error)
qed

lemma demo_store_one_facts:
  "numeric_positions (project_tracks demo_store_one) ''P001''"
  "previous_max (project_tracks demo_store_one) ''P001'' = 2"
  "str_digits_ok 3"
  "py_str 3 = Some ''3''"
  "title_of (tracks demo_store_one) ''T1'' = ''Good Rockin''"
  "list_tracks demo_store_one ''P001'' =
     Inr [\<lparr>lt_position = 2, lt_track_id = ''T2'', lt_title = ''Unknown'',
            lt_added_date = ''2025-03-05'', lt_notes = ''intro''\<rparr>]"
  by code_simp+

theorem add_track_appends_at_next_position_witness:
  "''P001'' \<in> project_id ` set (projects demo_store_one)
   \<and> ''T1'' \<in> track_id ` set (tracks demo_store_one)
   \<and> (''P001'', ''T1'') \<notin> membership_key ` set (project_tracks demo_store_one)
   \<and> numeric_positions (project_tracks demo_store_one) ''P001''
   \<and> (\<exists>s'. add_track ''2025-03-09'' ''2025-03-10'' ''P001'' ''T1''
               [CHR ''a'', CHR 0x0D, CHR 0x0A, CHR ''b''] demo_store_one = (Inr (), s')
          \<and> project_tracks s' =
              [demo_membership_2,
               \<lparr>pt_project_id = ''P001'', pt_track_id = ''T1'', added_date = ''2025-03-09'',
                 position = ''3'', notes_col = [CHR ''a'', CHR 0x0A, CHR ''b'']\<rparr>]
          \<and> list_tracks s' ''P001'' =
              Inr [\<lparr>lt_position = 2, lt_track_id = ''T2'', lt_title = ''Unknown'',
                    lt_added_date = ''2025-03-05'', lt_notes = ''intro''\<rparr>,
                   \<lparr>lt_position = 3, lt_track_id = ''T1'', lt_title = ''Good Rockin'',
                    lt_added_date = ''2025-03-09'',
                    lt_notes = [CHR ''a'', CHR 0x0A, CHR ''b'']\<rparr>])"
proof -
  have h1: "''P001'' \<in> project_id ` set (projects demo_store_one)"
    by (simp add: demo_store_one_def demo_store_def demo_project_def)
  have h2: "''T1'' \<in> track_id ` set (tracks demo_store_one)"
    by (simp add: demo_store_one_def demo_store_def demo_track_def)
  have h3: "(''P001'', ''T1'') \<notin> membership_key ` set (project_tracks demo_store_one)"
    by (simp add: demo_store_one_def demo_store_def demo_membership_2_def membership_key_def)
  note f = demo_store_one_facts
  have ok: "numeric_positions (project_tracks demo_store_one) ''P001''
      \<and> str_digits_ok (previous_max (project_tracks demo_store_one) ''P001'' + 1)"
    by (simp add: f)
  from add_track_appends_at_next_position [OF h1 h2 h3, of "''2025-03-09''" "''2025-03-10''"
      "[CHR ''a'', CHR 0x0D, CHR 0x0A, CHR ''b'']"] ok
  obtain s' ptext ts where
    "add_track ''2025-03-09'' ''2025-03-10'' ''P001'' ''T1''
       [CHR ''a'', CHR 0x0D, CHR 0x0A, CHR ''b''] demo_store_one = (Inr (), s')"
    "py_str (previous_max (project_tracks demo_store_one) ''P001'' + 1) = Some ptext"
    "project_tracks s' = project_tracks demo_store_one @
       [\<lparr>pt_project_id = ''P001'', pt_track_id = ''T1'', added_date = ''2025-03-09'',
         position = ptext,
         notes_col = universal_newlines [CHR ''a'', CHR 0x0D, CHR 0x0A, CHR ''b'']\<rparr>]"
    "list_tracks demo_store_one ''P001'' = Inr ts"
    "list_tracks s' ''P001'' =
       Inr (ts @ [\<lparr>lt_position = previous_max (project_tracks demo_store_one) ''P001'' + 1,
                   lt_track_id = ''T1'', lt_title = title_of (tracks demo_store_one) ''T1'',
                   lt_added_date = ''2025-03-09'',
                   lt_notes = universal_newlines [CHR ''a'', CHR 0x0D, CHR 0x0A, CHR ''b'']\<rparr>])"
    by blast
  then have "add_track ''2025-03-09'' ''2025-03-10'' ''P001'' ''T1''
               [CHR ''a'', CHR 0x0D, CHR 0x0A, CHR ''b''] demo_store_one = (Inr (), s')
          \<and> project_tracks s' =
              [demo_membership_2,
               \<lparr>pt_project_id = ''P001'', pt_track_id = ''T1'', added_date = ''2025-03-09'',
                 position = ''3'', notes_col = [CHR ''a'', CHR 0x0A, CHR ''b'']\<rparr>]
          \<and> list_tracks s' ''P001'' =
              Inr [\<lparr>lt_position = 2, lt_track_id = ''T2'', lt_title = ''Unknown'',
                    lt_added_date = ''2025-03-05'', lt_notes = ''intro''\<rparr>,
                   \<lparr>lt_position = 3, lt_track_id = ''T1'', lt_title = ''Good Rockin'',
                    lt_added_date = ''2025-03-09'',
                    lt_notes = [CHR ''a'', CHR 0x0A, CHR ''b'']\<rparr>]"
    by (simp add: f) (simp add: demo_store_one_def demo_store_def)
  with h1 h2 h3 f(1) show ?thesis by blast
qed

subsection \<open>Invariants of the membership table\<close>

lemma create_project_memberships:
  "project_tracks (snd (create_project today n d f k dl c s)) = project_tracks s"
  by (simp add: create_project_def Let_def split: sum.splits)

lemma add_track_memberships:
  "snd (add_track today today' pid tid n s) = s
   \<or> (\<exists>m. (pid, tid) \<notin> membership_key ` set (project_tracks s)
         \<and> max_position 0 (project_tracks s) pid = Inr m
         \<and> str_digits_ok (m + 1)
         \<and> project_tracks (snd (add_track today today' pid tid n s)) =
             project_tracks s @
               [\<lparr>pt_project_id = pid, pt_track_id = tid, added_date = today,
                 position = py_str_text (m + 1),
                 notes_col = universal_newlines n\<rparr>])"
proof (cases "validate_project_exists (projects s) pid \<and> validate_track_exists (tracks s) tid
    \<and> \<not> track_in_project (project_tracks s) pid tid")
  case False
  then show ?thesis by (auto simp: add_track_def)
next
  case True
  show ?thesis
  proof (cases "max_position 0 (project_tracks s) pid")
    case (Inl e)
    with True show ?thesis by (simp add: add_track_def get_next_position_def)
  next
    case (Inr m)
    with True show ?thesis
      by (cases "str_digits_ok (m + 1)")
         (simp_all add: add_track_def get_next_position_def track_in_project_iff py_str_def)
  qed
qed

lemma remove_track_memberships:
  "project_tracks (snd (remove_track today pid tid s)) = project_tracks s
   \<or> project_tracks (snd (remove_track today pid tid s)) =
       filter (\<lambda>r. \<not> (pt_project_id r = pid \<and> pt_track_id r = tid)) (project_tracks s)"
  by (simp add: remove_track_def Let_def)

lemma max_position_bounds:
  "max_position m0 rows pid = Inr m \<Longrightarrow>
     m0 \<le> m \<and> (\<forall>r \<in> set rows. pt_project_id r = pid \<longrightarrow>
                  (\<exists>p. py_int (position r) = Some p \<and> p \<le> m))"
proof (induction rows arbitrary: m0)
  case Nil
  then show ?case by simp
next
  case (Cons r rows)
  show ?case
  proof (cases "pt_project_id r = pid")
    case False
    with Cons show ?thesis by auto
  next
    case True
    with Cons.prems obtain p where p: "py_int (position r) = Some p"
      and rest: "max_position (max m0 p) rows pid = Inr m"
      by (auto split: option.splits)
    from Cons.IH [OF rest] p show ?thesis by auto
  qed
qed

lemma unique_positions_append:
  assumes "unique_positions rows"
      and "max_position 0 rows pid = Inr m"
      and "str_digits_ok (m + 1)"
  shows "unique_positions (rows @ [\<lparr>pt_project_id = pid, pt_track_id = tid, added_date = today,
             position = py_str_text (m + 1),
                 notes_col = universal_newlines n\<rparr>])"
proof -
  from max_position_bounds [OF assms(2)]
  have m: "0 \<le> m" and le: "\<forall>r \<in> set rows. pt_project_id r = pid \<longrightarrow>
                  (\<exists>p. py_int (position r) = Some p \<and> p \<le> m)"
    by auto
  have parse: "py_int (py_str_text (m + 1)) = Some (m + 1)"
    using m assms(3) by (simp add: py_int_py_str_text)
  have "(pid, Some (m + 1)) \<notin> (\<lambda>r. (pt_project_id r, py_int (position r))) ` set rows"
    using le by fastforce
  with assms(1) parse show ?thesis
    by (simp add: unique_positions_def)
qed

lemma perform_invariant:
  assumes "membership_invariant s"
  shows "membership_invariant (perform c s)"
proof (cases c)
  case (CreateProject today n d f k dl c')
  with assms show ?thesis
    by (simp add: membership_invariant_def create_project_memberships)
next
  case (AddTrack today today' pid tid n)
  from add_track_memberships [of today today' pid tid n s] show ?thesis
  proof
    assume "snd (add_track today today' pid tid n s) = s"
    with assms AddTrack show ?thesis by simp
  next
    assume "\<exists>m. (pid, tid) \<notin> membership_key ` set (project_tracks s)
         \<and> max_position 0 (project_tracks s) pid = Inr m
         \<and> str_digits_ok (m + 1)
         \<and> project_tracks (snd (add_track today today' pid tid n s)) =
             project_tracks s @
               [\<lparr>pt_project_id = pid, pt_track_id = tid, added_date = today,
                 position = py_str_text (m + 1),
                 notes_col = universal_newlines n\<rparr>]"
    then obtain m where added:
      "(pid, tid) \<notin> membership_key ` set (project_tracks s)"
      "max_position 0 (project_tracks s) pid = Inr m"
      "project_tracks (snd (add_track today today' pid tid n s)) =
         project_tracks s @
           [\<lparr>pt_project_id = pid, pt_track_id = tid, added_date = today,
             position = py_str_text (m + 1),
             notes_col = universal_newlines n\<rparr>]"
      and ok: "str_digits_ok (m + 1)"
      by blast
    from assms added(1) have "unique_keys (project_tracks (perform c s))"
      by (simp add: AddTrack added(3) membership_invariant_def unique_keys_def membership_key_def)
    moreover from assms have "unique_positions (project_tracks (perform c s))"
      by (simp add: AddTrack added(3) membership_invariant_def
            unique_positions_append [OF _ added(2) ok])
    ultimately show ?thesis by (simp add: membership_invariant_def)
  qed
next
  case (RemoveTrack today pid tid)
  with assms remove_track_memberships [of today pid tid s] show ?thesis
    by (auto simp: membership_invariant_def unique_keys_def unique_positions_def
          distinct_map_filter)
qed

lemma run_invariant: "membership_invariant s \<Longrightarrow> membership_invariant (run calls s)"
  unfolding run_def
  by (induction calls arbitrary: s) (simp_all add: perform_invariant)

lemma unique_positions_project:
  assumes "unique_positions rows"
  shows "distinct (map (\<lambda>r. py_int (position r)) (project_rows rows pid))"
proof -
  let ?h = "\<lambda>r. (pt_project_id r, py_int (position r))"
  from assms have "distinct (map ?h (project_rows rows pid))"
    by (simp add: unique_positions_def project_rows_def distinct_map_filter)
  moreover have "map ?h (project_rows rows pid) =
      map (Pair pid) (map (\<lambda>r. py_int (position r)) (project_rows rows pid))"
    by (simp add: project_rows_def)
  ultimately show ?thesis
    by (simp only: distinct_map)
qed

lemma map_filter_of_Some: "map f xs = map Some ys \<Longrightarrow> List.map_filter f xs = ys"
proof (induction xs arbitrary: ys)
  case Nil
  then show ?case by (simp add: List.map_filter_simps)
next
  case (Cons x xs)
  then show ?case by (cases ys) (auto simp: List.map_filter_simps)
qed

lemma dense_position_numbers:
  assumes "dense_positions rows pid"
  shows "position_numbers rows pid = map int [1..<Suc (length (project_rows rows pid))]"
proof -
  from assms have "map (\<lambda>r. py_int (position r)) (project_rows rows pid) =
      map Some (map int [1..<Suc (length (project_rows rows pid))])"
    by (simp add: dense_positions_def)
  then show ?thesis
    unfolding position_numbers_def by (rule map_filter_of_Some)
qed

lemma dense_numeric_positions:
  assumes "dense_positions rows pid"
  shows "numeric_positions rows pid"
proof -
  have "\<exists>p. py_int (position r) = Some p \<and> 0 \<le> p" if "r \<in> set (project_rows rows pid)" for r
  proof -
    from that have "py_int (position r) \<in> set (map (\<lambda>r. py_int (position r)) (project_rows rows pid))"
      by simp
    with assms have "py_int (position r) \<in> set (map (\<lambda>k. Some (int k)) [1..<Suc (length (project_rows rows pid))])"
      by (simp only: dense_positions_def)
    then show ?thesis by auto
  qed
  then show ?thesis
    by (fastforce simp: numeric_positions_def list_all_iff)
qed

lemma dense_previous_max:
  assumes "dense_positions rows pid"
  shows "previous_max rows pid = int (length (project_rows rows pid))"
proof (cases "project_rows rows pid = []")
  case True
  then show ?thesis by (simp add: previous_max_empty)
next
  case False
  let ?n = "length (project_rows rows pid)"
  have "Max (set (0 # map int [1..<Suc ?n])) = int ?n"
  proof (rule Max_eqI)
    show "finite (set (0 # map int [1..<Suc ?n]))" by simp
    show "y \<le> int ?n" if "y \<in> set (0 # map int [1..<Suc ?n])" for y
      using that by auto
    have "?n \<in> set [1..<Suc ?n]"
      using False by (cases "project_rows rows pid") simp_all
    then have "int ?n \<in> set (map int [1..<Suc ?n])"
      by (simp only: set_map) (rule imageI)
    then show "int ?n \<in> set (0 # map int [1..<Suc ?n])"
      by (simp only: list.set insert_iff) blast
  qed
  then show ?thesis
    by (simp only: previous_max_def dense_position_numbers [OF assms])
qed

lemma dense_max_position:
  "dense_positions rows pid \<Longrightarrow>
     max_position 0 rows pid = Inr (int (length (project_rows rows pid)))"
  by (simp add: max_position_numeric dense_numeric_positions dense_previous_max)

lemma dense_append:
  assumes "dense_positions rows pid"
      and "str_digits_ok (int (length (project_rows rows pid)) + 1)"
  shows "dense_positions
           (rows @ [\<lparr>pt_project_id = pid, pt_track_id = tid, added_date = today,
                     position = py_str_text (int (length (project_rows rows pid)) + 1),
                     notes_col = n\<rparr>]) pid"
proof -
  let ?k = "length (project_rows rows pid)"
  have "py_int (py_str_text (int ?k + 1)) = Some (int ?k + 1)"
    using assms(2) by (simp add: py_int_py_str_text)
  then have "py_int (py_str_text (int ?k + 1)) = Some (int (Suc ?k))"
    by simp
  with assms show ?thesis
    unfolding dense_positions_def project_rows_append
    by (simp add: project_rows_def del: of_nat_Suc)
qed

lemma project_rows_other:
  "pid' \<noteq> pid \<Longrightarrow>
     project_rows (filter (\<lambda>r. \<not> (pt_project_id r = pid' \<and> pt_track_id r = tid)) rows) pid =
       project_rows rows pid"
  unfolding project_rows_def filter_filter
  by (rule filter_cong) auto

lemma perform_dense:
  assumes "dense_positions (project_tracks s) pid" "\<not> removes_from pid c"
  shows "dense_positions (project_tracks (perform c s)) pid"
proof (cases c)
  case (CreateProject today n d f k dl c')
  with assms show ?thesis by (simp add: create_project_memberships)
next
  case (AddTrack today today' pid' tid n)
  from add_track_memberships [of today today' pid' tid n s] show ?thesis
  proof
    assume "snd (add_track today today' pid' tid n s) = s"
    with assms AddTrack show ?thesis by simp
  next
    assume "\<exists>m. (pid', tid) \<notin> membership_key ` set (project_tracks s)
         \<and> max_position 0 (project_tracks s) pid' = Inr m
         \<and> str_digits_ok (m + 1)
         \<and> project_tracks (snd (add_track today today' pid' tid n s)) =
             project_tracks s @
               [\<lparr>pt_project_id = pid', pt_track_id = tid, added_date = today,
                 position = py_str_text (m + 1),
                 notes_col = universal_newlines n\<rparr>]"
    then obtain m where m: "max_position 0 (project_tracks s) pid' = Inr m"
      and ok: "str_digits_ok (m + 1)"
      and rows: "project_tracks (perform c s) =
             project_tracks s @
               [\<lparr>pt_project_id = pid', pt_track_id = tid, added_date = today,
                 position = py_str_text (m + 1),
                 notes_col = universal_newlines n\<rparr>]"
      using AddTrack by auto
    show ?thesis
    proof (cases "pid' = pid")
      case True
      with m dense_max_position [OF assms(1)]
      have "m = int (length (project_rows (project_tracks s) pid))" by simp
      with True rows ok dense_append [OF assms(1), of tid today "universal_newlines n"]
      show ?thesis by simp
    next
      case False
      then have "project_rows (project_tracks (perform c s)) pid =
          project_rows (project_tracks s) pid"
        by (simp add: rows project_rows_append) (simp add: project_rows_def)
      with assms(1) show ?thesis by (simp add: dense_positions_def)
    qed
  qed
next
  case (RemoveTrack today pid' tid)
  with assms(2) have ne: "pid' \<noteq> pid" by simp
  from remove_track_memberships [of today pid' tid s]
  have "project_rows (project_tracks (perform c s)) pid = project_rows (project_tracks s) pid"
  proof
    assume "project_tracks (snd (remove_track today pid' tid s)) = project_tracks s"
    then show ?thesis by (simp only: RemoveTrack perform.simps)
  next
    assume "project_tracks (snd (remove_track today pid' tid s)) =
       filter (\<lambda>r. \<not> (pt_project_id r = pid' \<and> pt_track_id r = tid)) (project_tracks s)"
    then show ?thesis by (simp only: RemoveTrack perform.simps project_rows_other [OF ne])
  qed
  with assms(1) show ?thesis by (simp add: dense_positions_def)
qed

lemma run_dense:
  "dense_positions (project_tracks s) pid \<Longrightarrow> \<forall>c \<in> set calls. \<not> removes_from pid c \<Longrightarrow>
     dense_positions (project_tracks (run calls s)) pid"
  unfolding run_def
  by (induction calls arbitrary: s) (simp_all add: perform_dense)

text \<open>
  C7. A run of \<open>create_project\<close>, \<open>add_track\<close> and \<open>remove_track\<close> calls, whatever their
  arguments and whether they succeed or fail, takes a store with the membership
  invariants to a store with them: no composite key occurs twice in the membership
  table, and within each project no position number, and so no position text, occurs
  twice. A project whose positions are 1, 2, ..., n in file order before the run has
  positions 1, 2, ..., n' in file order after it when the run removes no track from
  the project.
\<close>

theorem membership_invariants_preserved:
  assumes "membership_invariant s"
  shows "membership_invariant (run calls s)
       \<and> distinct (map membership_key (project_tracks (run calls s)))
       \<and> (\<forall>pid. distinct (map (\<lambda>r. py_int (position r))
                    (project_rows (project_tracks (run calls s)) pid)))
       \<and> (\<forall>pid. distinct (map position (project_rows (project_tracks (run calls s)) pid)))
       \<and> (\<forall>pid. dense_positions (project_tracks s) pid
                  \<and> (\<forall>c \<in> set calls. \<not> removes_from pid c) \<longrightarrow>
                dense_positions (project_tracks (run calls s)) pid)"
proof -
  have inv: "membership_invariant (run calls s)"
    using assms by (rule run_invariant)
  then have keys: "distinct (map membership_key (project_tracks (run calls s)))"
    by (simp add: membership_invariant_def unique_keys_def)
  have nums: "distinct (map (\<lambda>r. py_int (position r))
                (project_rows (project_tracks (run calls s)) pid))" for pid
    using inv by (simp add: membership_invariant_def unique_positions_project)
  have texts: "distinct (map position (project_rows (project_tracks (run calls s)) pid))" for pid
  proof -
    have "distinct (map py_int (map position (project_rows (project_tracks (run calls s)) pid)))"
      using nums [of pid] by (simp add: comp_def)
    then show ?thesis by (simp only: distinct_map [of py_int])
  qed
  from inv keys nums texts show ?thesis
    by (simp add: run_dense)
qed

theorem membership_invariants_preserved_witness:
  "membership_invariant demo_store
   \<and> dense_positions (project_tracks demo_store) ''P001''
   \<and> membership_invariant (run demo_calls demo_store)
   \<and> dense_positions (project_tracks (run demo_calls demo_store)) ''P001''"
proof -
  have h1: "membership_invariant demo_store"
    by (simp add: membership_invariant_def unique_keys_def unique_positions_def demo_store_def)
  have h2: "dense_positions (project_tracks demo_store) ''P001''"
    by (simp add: dense_positions_def project_rows_def demo_store_def)
  have h3: "\<forall>c \<in> set demo_calls. \<not> removes_from ''P001'' c"
    by (simp add: demo_calls_def)
  from membership_invariants_preserved [OF h1, of demo_calls] h1 h2 h3
  show ?thesis by blast
qed

subsection \<open>Memberships stay with their projects\<close>

text \<open>
  No writer takes a project out of the projects table, and \<open>add_track\<close> writes a
  membership only for a project it found there: a store in which every membership row
  is of a project of the projects table stays so.
\<close>

lemma create_project_ids_grow:
  "project_id ` set (projects s) \<subseteq> project_id ` set (projects (snd (create_project today n d f k dl c s)))"
  by (auto simp: create_project_def Let_def split: sum.splits)

lemma perform_referential:
  assumes "referential s"
  shows "referential (perform c s)"
proof (cases c)
  case (CreateProject today n d f k dl c')
  with assms create_project_ids_grow [of s today n d f k dl c'] show ?thesis
    by (auto simp: referential_def list_all_iff create_project_memberships)
next
  case (AddTrack today today' pid tid n)
  with assms show ?thesis
    by (auto simp: referential_def list_all_iff add_track_def Let_def
          validate_project_exists_iff update_project_modified_ids
          split: sum.splits option.splits)
next
  case (RemoveTrack today pid tid)
  with assms show ?thesis
    by (auto simp: referential_def list_all_iff remove_track_def Let_def
          update_project_modified_ids)
qed

lemma run_referential: "referential s \<Longrightarrow> referential (run calls s)"
  unfolding run_def
  by (induction calls arbitrary: s) (simp_all add: perform_referential)

end
